theory Spec2Isabelle
  imports Complex_Main "HOL-Library.Code_Target_Numeral"
begin

section \<open>JavaScript numbers\<close>

text \<open>
  The worker computes with JavaScript numbers: the binary64 numbers, the two infinities
  and NaN. A finite number is modelled by the real it denotes, and every arithmetic
  operation rounds its exact result to binary64: to the nearest number, to the even
  significand on a tie, to an infinity from \<open>2^1024 - 2^970\<close> on, with gradual
  underflow. The two zeros are identified (a zero divisor counts as \<open>+0\<close>; a zero
  prints and serialises the same with either sign). Division by zero yields an infinity or
  NaN as in JavaScript, never a number.
\<close>

datatype jsnum = Finite real | PosInf | NegInf | NaN

fun isNaN :: "jsnum \<Rightarrow> bool" where
  "isNaN NaN = True"
| "isNaN _ = False"

text \<open>The sign of an infinite result: negative when \<open>negative\<close> holds.\<close>

definition signed_inf :: "bool \<Rightarrow> jsnum" where
  "signed_inf negative = (if negative then NegInf else PosInf)"

text \<open>The nearest integer, the even one on a tie.\<close>

definition round_half_even :: "real \<Rightarrow> int" where
  "round_half_even m =
     (let f = \<lfloor>m\<rfloor>
      in if m - of_int f < 1 / 2 then f
         else if 1 / 2 < m - of_int f then f + 1
         else if even f then f else f + 1)"

text \<open>
  The binary exponent of a positive magnitude below \<open>2^1024\<close>: the largest \<open>k\<close> with
  \<open>2^k \<le> a\<close>, and \<open>-1022\<close> for the subnormal magnitudes.
\<close>

definition exponent64 :: "real \<Rightarrow> int" where
  "exponent64 a =
     (if a < 2 powi (- 1022) then - 1022
      else Max {k \<in> {- 1022..1023}. 2 powi k \<le> a})"

text \<open>
  Rounding to binary64: the magnitude is rounded to a multiple of the quantum
  \<open>2^(exponent - 52)\<close>, and a result of \<open>2^1024\<close> is an infinity.
\<close>

definition round64 :: "real \<Rightarrow> jsnum" where
  "round64 x =
     (if x = 0 then Finite 0
      else if 2 powi 1024 \<le> \<bar>x\<bar> then signed_inf (x < 0)
      else
        (let q = 2 powi (exponent64 \<bar>x\<bar> - 52);
             r = of_int (round_half_even (\<bar>x\<bar> / q)) * q
         in if 2 powi 1024 \<le> r then signed_inf (x < 0)
            else Finite (if x < 0 then - r else r)))"

fun js_neg :: "jsnum \<Rightarrow> jsnum" where
  "js_neg (Finite x) = Finite (- x)"
| "js_neg PosInf = NegInf"
| "js_neg NegInf = PosInf"
| "js_neg NaN = NaN"

fun js_add :: "jsnum \<Rightarrow> jsnum \<Rightarrow> jsnum" where
  "js_add (Finite x) (Finite y) = round64 (x + y)"
| "js_add NaN _ = NaN"
| "js_add _ NaN = NaN"
| "js_add PosInf NegInf = NaN"
| "js_add NegInf PosInf = NaN"
| "js_add PosInf _ = PosInf"
| "js_add _ PosInf = PosInf"
| "js_add NegInf _ = NegInf"
| "js_add _ NegInf = NegInf"

definition js_sub :: "jsnum \<Rightarrow> jsnum \<Rightarrow> jsnum" where
  "js_sub a b = js_add a (js_neg b)"

fun js_mul :: "jsnum \<Rightarrow> jsnum \<Rightarrow> jsnum" where
  "js_mul (Finite x) (Finite y) = round64 (x * y)"
| "js_mul NaN _ = NaN"
| "js_mul _ NaN = NaN"
| "js_mul (Finite x) PosInf = (if x = 0 then NaN else signed_inf (x < 0))"
| "js_mul (Finite x) NegInf = (if x = 0 then NaN else signed_inf (0 < x))"
| "js_mul PosInf (Finite y) = (if y = 0 then NaN else signed_inf (y < 0))"
| "js_mul NegInf (Finite y) = (if y = 0 then NaN else signed_inf (0 < y))"
| "js_mul PosInf PosInf = PosInf"
| "js_mul PosInf NegInf = NegInf"
| "js_mul NegInf PosInf = NegInf"
| "js_mul NegInf NegInf = PosInf"

fun js_div :: "jsnum \<Rightarrow> jsnum \<Rightarrow> jsnum" where
  "js_div (Finite x) (Finite y) =
     (if y = 0 then (if x = 0 then NaN else signed_inf (x < 0)) else round64 (x / y))"
| "js_div NaN _ = NaN"
| "js_div _ NaN = NaN"
| "js_div (Finite x) PosInf = Finite 0"
| "js_div (Finite x) NegInf = Finite 0"
| "js_div PosInf (Finite y) = signed_inf (y < 0)"
| "js_div NegInf (Finite y) = signed_inf (0 \<le> y)"
| "js_div PosInf PosInf = NaN"
| "js_div PosInf NegInf = NaN"
| "js_div NegInf PosInf = NaN"
| "js_div NegInf NegInf = NaN"

text \<open>\<open>Math.PI\<close> is the binary64 number nearest to \<open>\<pi>\<close>.\<close>

definition Math_PI :: real where
  "Math_PI = 884279719003555 / 281474976710656"

text \<open>
  Three builtins are taken from the engine as it provides them. The language leaves the
  values of \<open>Math.cos\<close> to the implementation, except that the cosine of a zero is 1 and
  that of an infinity or NaN is NaN: \<open>cosine\<close> is the engine's function on the other
  arguments. \<open>read_float\<close> and \<open>read_int\<close> are \<open>parseFloat\<close> and \<open>parseInt\<close>
  (without a radix) on a text; \<open>parseInt\<close> yields NaN, here \<open>None\<close>, or an
  integer-valued number. A text of digits too long to read as a finite number is outside
  the model: the grid loop would not end on it.
\<close>

record engine =
  cosine :: "real \<Rightarrow> real"
  read_float :: "string \<Rightarrow> jsnum"
  read_int :: "string \<Rightarrow> int option"

fun js_cos :: "engine \<Rightarrow> jsnum \<Rightarrow> jsnum" where
  "js_cos js (Finite x) = (if x = 0 then Finite 1 else Finite (cosine js x))"
| "js_cos js _ = NaN"

text \<open>
  \<open>Number.prototype.toFixed\<close>. The result is a text; it is kept structured. For a
  finite \<open>x\<close> below \<open>10^21\<close> in magnitude the text is the sign, then the digits of the
  integer \<open>n\<close> nearest to \<open>|x| * 10^f\<close> (the larger one on a tie) with a point before
  the last \<open>f\<close> digits: \<open>TextFixed negative n f\<close>. NaN and the infinities print by
  name, and from \<open>10^21\<close> on the text is that of \<open>Number::toString\<close>.
\<close>

datatype numtext =
    TextNaN
  | TextInfinity bool
  | TextFixed bool nat nat
  | TextToString real

fun toFixed :: "nat \<Rightarrow> jsnum \<Rightarrow> numtext" where
  "toFixed f NaN = TextNaN"
| "toFixed f PosInf = TextInfinity False"
| "toFixed f NegInf = TextInfinity True"
| "toFixed f (Finite x) =
     (if 10 ^ 21 \<le> \<bar>x\<bar> then TextToString x
      else TextFixed (x < 0) (nat \<lfloor>\<bar>x\<bar> * 10 ^ f + 1 / 2\<rfloor>) f)"

text \<open>The number a text denotes, where it denotes a finite one.\<close>

fun numtext_value :: "numtext \<Rightarrow> real option" where
  "numtext_value (TextFixed negative n f) =
     Some ((if negative then - 1 else 1) * real n / 10 ^ f)"
| "numtext_value (TextToString x) = Some x"
| "numtext_value _ = None"

section \<open>Grid generator\<close>

text \<open>
  \<^verbatim>\<open>
  const kmPerDegLat = 111;
  const kmPerDegLon = 111 * Math.cos(centerLat * Math.PI / 180);
  const locations = [];
  for (let i = 0; i < grid; i++) {
    for (let j = 0; j < grid; j++) {
      const latOffset = (i / (grid - 1) - 0.5) * size / kmPerDegLat;
      const lonOffset = (j / (grid - 1) - 0.5) * size / kmPerDegLon;
      locations.push({ lat: (centerLat + latOffset).toFixed(6),
                       lon: (centerLon + lonOffset).toFixed(6) });
    }
  }
  \<close>
\<close>

record location =
  lat :: numtext
  lon :: numtext

definition kmPerDegLat :: jsnum where
  "kmPerDegLat = Finite 111"

definition kmPerDegLon :: "engine \<Rightarrow> jsnum \<Rightarrow> jsnum" where
  "kmPerDegLon js centerLat =
     js_mul (Finite 111) (js_cos js (js_div (js_mul centerLat (Finite Math_PI)) (Finite 180)))"

text \<open>\<open>i / (grid - 1) - 0.5\<close>, the loop counter and the grid being integer-valued numbers.\<close>

definition offset_fraction :: "int \<Rightarrow> int \<Rightarrow> jsnum" where
  "offset_fraction grid i =
     js_sub (js_div (Finite (of_int i)) (js_sub (Finite (of_int grid)) (Finite 1)))
       (Finite (1 / 2))"

definition latOffset :: "jsnum \<Rightarrow> int \<Rightarrow> int \<Rightarrow> jsnum" where
  "latOffset size_km grid i = js_div (js_mul (offset_fraction grid i) size_km) kmPerDegLat"

definition lonOffset :: "engine \<Rightarrow> jsnum \<Rightarrow> jsnum \<Rightarrow> int \<Rightarrow> int \<Rightarrow> jsnum" where
  "lonOffset js centerLat size_km grid j =
     js_div (js_mul (offset_fraction grid j) size_km) (kmPerDegLon js centerLat)"

definition grid_point ::
  "engine \<Rightarrow> jsnum \<Rightarrow> jsnum \<Rightarrow> jsnum \<Rightarrow> int \<Rightarrow> int \<Rightarrow> int \<Rightarrow> location" where
  "grid_point js centerLat centerLon size_km grid i j =
     \<lparr> lat = toFixed 6 (js_add centerLat (latOffset size_km grid i)),
       lon = toFixed 6 (js_add centerLon (lonOffset js centerLat size_km grid j)) \<rparr>"

function grid_columns ::
  "engine \<Rightarrow> jsnum \<Rightarrow> jsnum \<Rightarrow> jsnum \<Rightarrow> int \<Rightarrow> int \<Rightarrow> int \<Rightarrow> location list \<Rightarrow>
     location list" where
  "grid_columns js centerLat centerLon size_km grid i j locations =
     (if j < grid
      then grid_columns js centerLat centerLon size_km grid i (j + 1)
             (locations @ [grid_point js centerLat centerLon size_km grid i j])
      else locations)"
  by pat_completeness auto
termination
  by (relation "measure (\<lambda>(js, centerLat, centerLon, size_km, grid, i, j, locations). nat (grid - j))")
     auto

declare grid_columns.simps [simp del]

function grid_rows ::
  "engine \<Rightarrow> jsnum \<Rightarrow> jsnum \<Rightarrow> jsnum \<Rightarrow> int \<Rightarrow> int \<Rightarrow> location list \<Rightarrow> location list" where
  "grid_rows js centerLat centerLon size_km grid i locations =
     (if i < grid
      then grid_rows js centerLat centerLon size_km grid (i + 1)
             (grid_columns js centerLat centerLon size_km grid i 0 locations)
      else locations)"
  by pat_completeness auto
termination
  by (relation "measure (\<lambda>(js, centerLat, centerLon, size_km, grid, i, locations). nat (grid - i))")
     auto

declare grid_rows.simps [simp del]

definition generate_grid ::
  "engine \<Rightarrow> jsnum \<Rightarrow> jsnum \<Rightarrow> jsnum \<Rightarrow> int \<Rightarrow> location list" where
  "generate_grid js centerLat centerLon size_km grid =
     grid_rows js centerLat centerLon size_km grid 0 []"

section \<open>Query parameters\<close>

text \<open>
  \<open>url.searchParams.get\<close> returns a string or \<open>null\<close>: a \<open>string option\<close>. A
  parameter is truthy when it is present and not empty. \<open>parseFloat\<close> and \<open>parseInt\<close>
  convert their argument to a text and read it with the engine's reader; \<open>null\<close> and
  \<open>undefined\<close> become the texts \<open>null\<close> and \<open>undefined\<close>, which have no numeric
  prefix, so they read as NaN.
  \<^verbatim>\<open>
  const q = url.searchParams.get('q');
  const lat = url.searchParams.get('lat');
  const lon = url.searchParams.get('lon');
  const size = parseFloat(url.searchParams.get('size')) || 10;
  const grid = parseInt(url.searchParams.get('grid')) || 40;
  \<close>
\<close>

record request =
  param_q :: "string option"
  param_lat :: "string option"
  param_lon :: "string option"
  param_size :: "string option"
  param_grid :: "string option"

definition truthy :: "string option \<Rightarrow> bool" where
  "truthy p = (case p of None \<Rightarrow> False | Some s \<Rightarrow> s \<noteq> [])"

definition parseFloat :: "engine \<Rightarrow> string option \<Rightarrow> jsnum" where
  "parseFloat js p = (case p of None \<Rightarrow> NaN | Some s \<Rightarrow> read_float js s)"

definition parseInt :: "engine \<Rightarrow> string option \<Rightarrow> int option" where
  "parseInt js p = (case p of None \<Rightarrow> None | Some s \<Rightarrow> read_int js s)"

text \<open>\<open>x || 10\<close> and \<open>x || 40\<close>: NaN and zero are falsy.\<close>

definition size_or_default :: "jsnum \<Rightarrow> jsnum" where
  "size_or_default v = (if v = NaN \<or> v = Finite 0 then Finite 10 else v)"

definition grid_or_default :: "int option \<Rightarrow> int" where
  "grid_or_default v = (case v of None \<Rightarrow> 40 | Some n \<Rightarrow> if n = 0 then 40 else n)"

definition requested_size :: "engine \<Rightarrow> request \<Rightarrow> jsnum" where
  "requested_size js req = size_or_default (parseFloat js (param_size req))"

definition requested_grid :: "engine \<Rightarrow> request \<Rightarrow> int" where
  "requested_grid js req = grid_or_default (parseInt js (param_grid req))"

section \<open>Collaborators, results and effects\<close>

text \<open>
  What a call to a collaborator can come to: \<open>fetch\<close> rejects (a TypeError with the
  runtime's message), the response is not \<open>ok\<close> (status and body text), \<open>json()\<close>
  rejects (a SyntaxError with the runtime's message), or a JSON value arrives.
\<close>

datatype 'j upstream =
    Rejected string
  | NotOk nat string
  | BadJson string
  | Json 'j

text \<open>
  The geocoder's JSON as the handler reads it: a falsy value, an array of candidates, or
  any other value on which reading \<open>geoResult[0].lat\<close> raises a TypeError (with the
  runtime's message). A candidate's fields may be absent.
\<close>

record candidate =
  geo_lat :: "string option"
  geo_lon :: "string option"
  display_name :: "string option"

datatype geo_json =
    GeoFalsy
  | GeoArray "candidate list"
  | GeoThrows string

text \<open>
  An elevation sample is a number, \<open>null\<close>, or \<open>undefined\<close> (a result without the
  field); the service documents numbers and \<open>null\<close>, and other JSON values are outside
  the model. The elevation service's JSON is an object with \<open>status\<close>, \<open>error\<close> and
  \<open>results\<close>; \<open>results\<close> is falsy, an array of results, or a value on which
  \<open>results.map(r => r.elevation)\<close> raises a TypeError. \<open>ElevThrows\<close> is a JSON value
  whose \<open>status\<close> cannot be read (\<open>null\<close>).
\<close>

datatype sample = Elev real | Null | Undefined

datatype results_json =
    ResultsFalsy
  | ResultsArray "sample list"
  | ResultsThrows string

datatype elev_json =
    ElevObject "string option" "string option" results_json
  | ElevThrows string

text \<open>A thrown error: its \<open>name\<close> and its \<open>message\<close>.\<close>

datatype thrown = Thrown string string

definition Error :: "string \<Rightarrow> thrown" where
  "Error msg = Thrown ''Error'' msg"

text \<open>Texts built by template literals are kept structured where they embed numbers.\<close>

datatype name_text =
    DisplayName "string option"
  | CoordName numtext numtext

datatype cache_key = CacheKey numtext numtext jsnum int

record terrain_result =
  name :: name_text
  center :: "jsnum \<times> jsnum"
  elevations :: "sample list"
  minElev :: jsnum
  maxElev :: jsnum
  grid :: int

text \<open>
  A response body is the JSON text of a value; the model keeps the value. The store
  holds the JSON text of a result and parses it on reading, so it is modelled as holding
  the result. \<open>TerrainBody r c\<close> is the text of \<open>r\<close>, with \<open>cached: true\<close> added when
  \<open>c\<close> holds; \<open>ErrorBody e d\<close> is \<open>{error: e}\<close> with \<open>details: d\<close> when present.
\<close>

datatype body =
    TerrainBody terrain_result bool
  | ErrorBody string "string option"

record response =
  status :: nat
  body :: body

text \<open>The effects of a request, in the order they happen, each with what it observed.\<close>

datatype event =
    GeoCall string "geo_json upstream"
  | CacheGet cache_key "terrain_result option"
  | ElevCall "location list" "elev_json upstream"
  | Delay nat
  | CachePut cache_key terrain_result nat

text \<open>
  The environment of a request: the geocoder, the elevation service (its reply may depend
  on how many elevation calls the request has made before), and the KV binding
  \<open>env.CACHE\<close>, which may be unset.
\<close>

record env =
  geocode :: "string \<Rightarrow> geo_json upstream"
  elevation :: "nat \<Rightarrow> location list \<Rightarrow> elev_json upstream"
  CACHE :: "(cache_key \<rightharpoonup> terrain_result) option"

text \<open>A stage of the handler returns a response, throws, or passes a value on.\<close>

datatype 'a step = Return response | Throw thrown | Next 'a

section \<open>Decimal text of a status code\<close>

function show_nat :: "nat \<Rightarrow> string" where
  "show_nat n =
     (if n < 10 then [''0123456789'' ! n]
      else show_nat (n div 10) @ [''0123456789'' ! (n mod 10)])"
  by pat_completeness auto
termination
  by (relation "measure id") auto

declare show_nat.simps [simp del]

section \<open>Elevation fetcher\<close>

text \<open>
  One batch call, after \<open>fetch\<close> has settled:
  \<^verbatim>\<open>
  if (!elevRes.ok) {
    const errorText = await elevRes.text();
    throw new Error(`Elevation API failed: ${elevRes.status} - ${errorText.slice(0, 200)}`);
  }
  const elevData = await elevRes.json();
  if (elevData.status !== 'OK' || !elevData.results) {
    throw new Error(`Elevation API error: ${elevData.error || 'Unknown error'}`);
  }
  return elevData.results.map(r => r.elevation);
  \<close>
\<close>

definition error_or_unknown :: "string option \<Rightarrow> string" where
  "error_or_unknown e = (case e of None \<Rightarrow> ''Unknown error'' | Some m \<Rightarrow> if m = [] then ''Unknown error'' else m)"

fun batch_elevations :: "elev_json upstream \<Rightarrow> thrown + sample list" where
  "batch_elevations (Rejected m) = Inl (Thrown ''TypeError'' m)"
| "batch_elevations (NotOk st txt) =
     Inl (Error (''Elevation API failed: '' @ show_nat st @ '' - '' @ take 200 txt))"
| "batch_elevations (BadJson m) = Inl (Thrown ''SyntaxError'' m)"
| "batch_elevations (Json (ElevThrows m)) = Inl (Thrown ''TypeError'' m)"
| "batch_elevations (Json (ElevObject st er rs)) =
     (if st \<noteq> Some ''OK'' \<or> rs = ResultsFalsy
      then Inl (Error (''Elevation API error: '' @ error_or_unknown er))
      else (case rs of
              ResultsArray es \<Rightarrow> Inr es
            | ResultsThrows m \<Rightarrow> Inl (Thrown ''TypeError'' m)
            | ResultsFalsy \<Rightarrow> Inl (Error (''Elevation API error: '' @ error_or_unknown er))))"

text \<open>
  The batch loop. The index \<open>i\<close> advances by \<open>BATCH_SIZE\<close>; call number \<open>i div BATCH_SIZE\<close>
  sends \<open>locations.slice(i, i + BATCH_SIZE)\<close>; a failed call ends the loop by its throw.
  \<^verbatim>\<open>
  const BATCH_SIZE = 100;
  const allElevations = [];
  for (let i = 0; i < locations.length; i += BATCH_SIZE) {
    const batch = locations.slice(i, i + BATCH_SIZE);
    const batchElevations = await ...;
    allElevations.push(...batchElevations);
    // Rate limit: wait between batches (except for last batch)
    if (i + BATCH_SIZE < locations.length) {
      await new Promise(resolve => setTimeout(resolve, 2000));
    }
  }
  return allElevations;
  \<close>
\<close>

definition BATCH_SIZE :: nat where
  "BATCH_SIZE = 100"

function fetch_batches ::
  "(nat \<Rightarrow> location list \<Rightarrow> elev_json upstream) \<Rightarrow> location list \<Rightarrow> nat \<Rightarrow>
     sample list \<Rightarrow> event list \<Rightarrow> (thrown + sample list) \<times> event list" where
  "fetch_batches api locations i allElevations events =
     (if i < length locations
      then
        (let batch = take BATCH_SIZE (drop i locations);
             reply = api (i div BATCH_SIZE) batch;
             called = events @ [ElevCall batch reply]
         in case batch_elevations reply of
              Inl e \<Rightarrow> (Inl e, called)
            | Inr batchElevations \<Rightarrow>
                fetch_batches api locations (i + BATCH_SIZE) (allElevations @ batchElevations)
                  (if i + BATCH_SIZE < length locations then called @ [Delay 2000] else called))
      else (Inr allElevations, events))"
  by pat_completeness auto
termination
  by (relation "measure (\<lambda>(api, locations, i, allElevations, events). length locations - i)")
     (auto simp: BATCH_SIZE_def)

declare fetch_batches.simps [simp del]

definition fetch_elevations ::
  "(nat \<Rightarrow> location list \<Rightarrow> elev_json upstream) \<Rightarrow> location list \<Rightarrow>
     (thrown + sample list) \<times> event list" where
  "fetch_elevations api locations = fetch_batches api locations 0 [] []"

text \<open>
  The fetcher as the specification words it: the input cut into contiguous batches of at
  most \<open>n\<close> coordinates, one call per batch in order, a pacing delay after every batch but
  the last, the outputs concatenated in batch order, the first failing call ending it.
\<close>

function chunks :: "nat \<Rightarrow> 'a list \<Rightarrow> 'a list list" where
  "chunks n xs = (if n = 0 \<or> xs = [] then [] else take n xs # chunks n (drop n xs))"
  by pat_completeness auto
termination
  by (relation "measure (\<lambda>(n, xs). length xs)") auto

declare chunks.simps [simp del]

fun sequential_batches ::
  "(nat \<Rightarrow> location list \<Rightarrow> elev_json upstream) \<Rightarrow> nat \<Rightarrow> location list list \<Rightarrow>
     (thrown + sample list) \<times> event list" where
  "sequential_batches api k [] = (Inr [], [])"
| "sequential_batches api k (b # bs) =
     (case batch_elevations (api k b) of
        Inl e \<Rightarrow> (Inl e, [ElevCall b (api k b)])
      | Inr out \<Rightarrow>
          (case sequential_batches api (Suc k) bs of
             (Inl e, events) \<Rightarrow>
               (Inl e, ElevCall b (api k b) # (if bs = [] then [] else [Delay 2000]) @ events)
           | (Inr outs, events) \<Rightarrow>
               (Inr (out @ outs),
                ElevCall b (api k b) # (if bs = [] then [] else [Delay 2000]) @ events)))"

text \<open>The events of a fetch in which no call fails: calls alternating with delays.\<close>

fun schedule ::
  "(nat \<Rightarrow> location list \<Rightarrow> elev_json upstream) \<Rightarrow> nat \<Rightarrow> location list list \<Rightarrow> event list" where
  "schedule api k [] = []"
| "schedule api k (b # bs) =
     ElevCall b (api k b) # (if bs = [] then [] else Delay 2000 # schedule api (Suc k) bs)"

fun is_call :: "event \<Rightarrow> bool" where
  "is_call (ElevCall b r) = True"
| "is_call _ = False"

fun is_delay :: "event \<Rightarrow> bool" where
  "is_delay (Delay ms) = True"
| "is_delay _ = False"

fun is_put :: "event \<Rightarrow> bool" where
  "is_put (CachePut k r ttl) = True"
| "is_put _ = False"

text \<open>The batches an event list calls the elevation service with, in order.\<close>

fun calls :: "event list \<Rightarrow> location list list" where
  "calls [] = []"
| "calls (ElevCall b r # es) = b # calls es"
| "calls (e # es) = calls es"


section \<open>Aggregator\<close>

text \<open>
  \<^verbatim>\<open>
  const validElevations = elevations.filter(e => e !== null && !isNaN(e));
  if (validElevations.length === 0) {
    throw new Error('No valid elevation data for this location');
  }
  const minElev = Math.min(...validElevations);
  const maxElev = Math.max(...validElevations);
  \<close>
  \<open>isNaN\<close>, \<open>Math.min\<close> and \<open>Math.max\<close> convert their arguments to numbers:
  \<open>null\<close> to 0 and \<open>undefined\<close> to NaN.
\<close>

fun to_number :: "sample \<Rightarrow> jsnum" where
  "to_number (Elev x) = Finite x"
| "to_number Null = Finite 0"
| "to_number Undefined = NaN"

definition valid :: "sample \<Rightarrow> bool" where
  "valid e = (e \<noteq> Null \<and> \<not> isNaN (to_number e))"

fun js_min :: "jsnum \<Rightarrow> jsnum \<Rightarrow> jsnum" where
  "js_min (Finite x) (Finite y) = Finite (min x y)"
| "js_min NaN _ = NaN"
| "js_min _ NaN = NaN"
| "js_min NegInf _ = NegInf"
| "js_min _ NegInf = NegInf"
| "js_min PosInf b = b"
| "js_min a PosInf = a"

fun js_max :: "jsnum \<Rightarrow> jsnum \<Rightarrow> jsnum" where
  "js_max (Finite x) (Finite y) = Finite (max x y)"
| "js_max NaN _ = NaN"
| "js_max _ NaN = NaN"
| "js_max PosInf _ = PosInf"
| "js_max _ PosInf = PosInf"
| "js_max NegInf b = b"
| "js_max a NegInf = a"

definition math_min :: "jsnum list \<Rightarrow> jsnum" where
  "math_min xs = foldr js_min xs PosInf"

definition math_max :: "jsnum list \<Rightarrow> jsnum" where
  "math_max xs = foldr js_max xs NegInf"

definition aggregate :: "sample list \<Rightarrow> thrown + jsnum \<times> jsnum" where
  "aggregate samples =
     (let validElevations = filter valid samples
      in if length validElevations = 0
         then Inl (Error ''No valid elevation data for this location'')
         else Inr (math_min (map to_number validElevations),
                   math_max (map to_number validElevations)))"

text \<open>The number of a valid sample.\<close>

fun elevation_of :: "sample \<Rightarrow> real" where
  "elevation_of (Elev x) = x"
| "elevation_of _ = 0"

text \<open>
  The replies of the elevation service that the claims call a non-success status and a
  malformed response: a response that is not \<open>ok\<close>; and a body that is not JSON, whose
  \<open>status\<close> is not \<open>OK\<close>, or whose \<open>results\<close> are missing or cannot be mapped. A
  reply with a number of results other than the number of coordinates sent is well-formed
  for the handler.
\<close>

fun non_success :: "'j upstream \<Rightarrow> bool" where
  "non_success (NotOk st txt) = True"
| "non_success _ = False"

fun rejected :: "'j upstream \<Rightarrow> bool" where
  "rejected (Rejected m) = True"
| "rejected _ = False"

fun malformed :: "elev_json upstream \<Rightarrow> bool" where
  "malformed (BadJson m) = True"
| "malformed (Json (ElevThrows m)) = True"
| "malformed (Json (ElevObject st er (ResultsArray es))) = (st \<noteq> Some ''OK'')"
| "malformed (Json (ElevObject st er rs)) = True"
| "malformed _ = False"

text \<open>
  For the geocoder, malformed is a body that is not JSON or a value whose first candidate
  cannot be read. A falsy body counts as no candidates.
\<close>

fun geo_malformed :: "geo_json upstream \<Rightarrow> bool" where
  "geo_malformed (BadJson m) = True"
| "geo_malformed (Json (GeoThrows m)) = True"
| "geo_malformed _ = False"

section \<open>Coordinate resolver\<close>

text \<open>
  \<^verbatim>\<open>
  if (q) {
    const geoRes = await fetch(geoUrl, ...);
    if (!geoRes.ok) { throw new Error(`Geocoding failed: ${geoRes.status}`); }
    const geoResult = await geoRes.json();
    if (!geoResult || geoResult.length === 0) {
      return new Response(JSON.stringify({ error: 'Location not found' }), { status: 404, ... });
    }
    centerLat = parseFloat(geoResult[0].lat);
    centerLon = parseFloat(geoResult[0].lon);
    name = geoResult[0].display_name;
  } else if (lat && lon) {
    centerLat = parseFloat(lat);
    centerLon = parseFloat(lon);
    name = `${centerLat.toFixed(4)}, ${centerLon.toFixed(4)}`;
  } else {
    return new Response(JSON.stringify({ error: 'Provide ?q=location or ?lat=X&lon=Y' }),
                        { status: 400, ... });
  }
  if (isNaN(centerLat) || isNaN(centerLon)) {
    return new Response(JSON.stringify({ error: 'Invalid coordinates' }), { status: 400, ... });
  }
  \<close>
\<close>

type_synonym resolved = "jsnum \<times> jsnum \<times> name_text"

definition not_found :: response where
  "not_found = \<lparr> status = 404, body = ErrorBody ''Location not found'' None \<rparr>"

definition missing_params :: response where
  "missing_params = \<lparr> status = 400, body = ErrorBody ''Provide ?q=location or ?lat=X&lon=Y'' None \<rparr>"

definition invalid_coordinates :: response where
  "invalid_coordinates = \<lparr> status = 400, body = ErrorBody ''Invalid coordinates'' None \<rparr>"

fun geocoded :: "engine \<Rightarrow> geo_json upstream \<Rightarrow> resolved step" where
  "geocoded js (Rejected m) = Throw (Thrown ''TypeError'' m)"
| "geocoded js (NotOk st txt) = Throw (Error (''Geocoding failed: '' @ show_nat st))"
| "geocoded js (BadJson m) = Throw (Thrown ''SyntaxError'' m)"
| "geocoded js (Json GeoFalsy) = Return not_found"
| "geocoded js (Json (GeoArray [])) = Return not_found"
| "geocoded js (Json (GeoArray (c # cs))) =
     Next (parseFloat js (geo_lat c), parseFloat js (geo_lon c), DisplayName (display_name c))"
| "geocoded js (Json (GeoThrows m)) = Throw (Thrown ''TypeError'' m)"

definition explicit_coordinates :: "engine \<Rightarrow> request \<Rightarrow> resolved step" where
  "explicit_coordinates js req =
     (if truthy (param_lat req) \<and> truthy (param_lon req)
      then (let centerLat = parseFloat js (param_lat req);
                centerLon = parseFloat js (param_lon req)
            in Next (centerLat, centerLon, CoordName (toFixed 4 centerLat) (toFixed 4 centerLon)))
      else Return missing_params)"

definition resolve :: "engine \<Rightarrow> env \<Rightarrow> request \<Rightarrow> resolved step \<times> event list" where
  "resolve js e req =
     (case param_q req of
        None \<Rightarrow> (explicit_coordinates js req, [])
      | Some q \<Rightarrow>
          if q = [] then (explicit_coordinates js req, [])
          else (geocoded js (geocode e q), [GeoCall q (geocode e q)]))"

fun validate :: "resolved step \<Rightarrow> resolved step" where
  "validate (Next (centerLat, centerLon, nm)) =
     (if isNaN centerLat \<or> isNaN centerLon then Return invalid_coordinates
      else Next (centerLat, centerLon, nm))"
| "validate s = s"

section \<open>Cache gateway and request handler\<close>

text \<open>
  \<^verbatim>\<open>
  const cacheKey = `terrain:${centerLat.toFixed(4)}:${centerLon.toFixed(4)}:${size}:${grid}`;
  if (env.CACHE) {
    const cached = await env.CACHE.get(cacheKey, 'json');
    if (cached) {
      return new Response(JSON.stringify({ ...cached, cached: true }), ...);
    }
  }
  ... grid, elevations, minElev, maxElev ...
  const result = { name, center: [centerLat, centerLon], elevations, minElev, maxElev, grid };
  if (env.CACHE) {
    await env.CACHE.put(cacheKey, JSON.stringify(result), { expirationTtl: 60 * 60 * 24 * 30 });
  }
  return new Response(JSON.stringify(result), ...);
  } catch (error) {
    return new Response(JSON.stringify({
      error: error.message || 'Internal server error',
      details: error.toString()
    }), { status: 500, ... });
  }
  \<close>
  The preflight answer to \<open>OPTIONS\<close> and the \<open>/debug-sentry\<close> route come before this
  code and are outside the pipeline; telemetry has no effect on the result.
\<close>

record outcome =
  reply :: response
  store :: "(cache_key \<rightharpoonup> terrain_result) option"
  trace :: "event list"

definition expirationTtl :: nat where
  "expirationTtl = 60 * 60 * 24 * 30"

definition cacheKey :: "jsnum \<Rightarrow> jsnum \<Rightarrow> jsnum \<Rightarrow> int \<Rightarrow> cache_key" where
  "cacheKey centerLat centerLon size_km n =
     CacheKey (toFixed 4 centerLat) (toFixed 4 centerLon) size_km n"

definition cache_get :: "env \<Rightarrow> cache_key \<Rightarrow> terrain_result option \<times> event list" where
  "cache_get e k =
     (case CACHE e of
        None \<Rightarrow> (None, [])
      | Some kv \<Rightarrow> (kv k, [CacheGet k (kv k)]))"

definition cache_put ::
  "env \<Rightarrow> cache_key \<Rightarrow> terrain_result \<Rightarrow> (cache_key \<rightharpoonup> terrain_result) option \<times> event list" where
  "cache_put e k r =
     (case CACHE e of
        None \<Rightarrow> (None, [])
      | Some kv \<Rightarrow> (Some (kv(k \<mapsto> r)), [CachePut k r expirationTtl]))"

text \<open>From the grid to the result record: generate, fetch, aggregate.\<close>

definition compute ::
  "engine \<Rightarrow> env \<Rightarrow> resolved \<Rightarrow> jsnum \<Rightarrow> int \<Rightarrow> (thrown + terrain_result) \<times> event list" where
  "compute js e c size_km n =
     (case c of (centerLat, centerLon, nm) \<Rightarrow>
        (let locations = generate_grid js centerLat centerLon size_km n;
             (fetched, events) = fetch_elevations (elevation e) locations
         in case fetched of
              Inl err \<Rightarrow> (Inl err, events)
            | Inr samples \<Rightarrow>
                (case aggregate samples of
                   Inl err \<Rightarrow> (Inl err, events)
                 | Inr (lo, hi) \<Rightarrow>
                     (Inr \<lparr> name = nm, center = (centerLat, centerLon), elevations = samples,
                            minElev = lo, maxElev = hi, grid = n \<rparr>, events))))"

definition error_response :: "thrown \<Rightarrow> response" where
  "error_response err =
     (case err of Thrown nm msg \<Rightarrow>
        \<lparr> status = 500,
          body = ErrorBody (if msg = [] then ''Internal server error'' else msg)
                   (Some (if msg = [] then nm else if nm = [] then msg else nm @ '': '' @ msg)) \<rparr>)"

definition ok_response :: "terrain_result \<Rightarrow> bool \<Rightarrow> response" where
  "ok_response r c = \<lparr> status = 200, body = TerrainBody r c \<rparr>"

text \<open>After the coordinates are resolved and valid: lookup, and on a miss the pipeline.\<close>

definition serve ::
  "engine \<Rightarrow> env \<Rightarrow> resolved \<Rightarrow> jsnum \<Rightarrow> int \<Rightarrow> event list \<Rightarrow> outcome" where
  "serve js e c size_km n earlier =
     (case c of (centerLat, centerLon, nm) \<Rightarrow>
        (let key = cacheKey centerLat centerLon size_km n;
             (cached, looked) = cache_get e key
         in case cached of
              Some r \<Rightarrow> \<lparr> reply = ok_response r True, store = CACHE e, trace = earlier @ looked \<rparr>
            | None \<Rightarrow>
                (let (computed, events) = compute js e c size_km n
                 in case computed of
                      Inl err \<Rightarrow>
                        \<lparr> reply = error_response err, store = CACHE e,
                          trace = earlier @ looked @ events \<rparr>
                    | Inr result \<Rightarrow>
                        (let (kv, put) = cache_put e key result
                         in \<lparr> reply = ok_response result False, store = kv,
                              trace = earlier @ looked @ events @ put \<rparr>))))"

definition terrain :: "engine \<Rightarrow> env \<Rightarrow> request \<Rightarrow> outcome" where
  "terrain js e req =
     (let size_km = requested_size js req;
          n = requested_grid js req;
          (resolution, events) = resolve js e req
      in case validate resolution of
           Return r \<Rightarrow> \<lparr> reply = r, store = CACHE e, trace = events \<rparr>
         | Throw err \<Rightarrow> \<lparr> reply = error_response err, store = CACHE e, trace = events \<rparr>
         | Next c \<Rightarrow> serve js e c size_km n events)"


section \<open>Example engine, collaborators and requests\<close>

text \<open>
  An engine for the examples. Its readers are \<open>parseFloat\<close> and \<open>parseInt\<close> on
  ASCII text: after leading white space and a sign they take the longest prefix that is a
  numeral (\<open>parseInt\<close>: decimal, or hexadecimal after \<open>0x\<close>) at its value rounded to
  binary64, and a text without such a prefix reads as NaN (an integer numeral too long
  for a finite number is outside the model). Its cosine is the cosine series up to the
  power 40, rounded to binary64, which resolves the cosine to binary64 for the latitudes
  between -90 and 90 degrees.
\<close>

definition is_space :: "char \<Rightarrow> bool" where
  "is_space c = (c \<in> set [CHR '' '', CHR 0x09, CHR 0x0A, CHR 0x0B, CHR 0x0C, CHR 0x0D])"

definition is_digit :: "char \<Rightarrow> bool" where
  "is_digit c = (c \<in> set ''0123456789'')"

definition is_hex_digit :: "char \<Rightarrow> bool" where
  "is_hex_digit c = (c \<in> set ''0123456789abcdefABCDEF'')"

definition digit_value :: "char \<Rightarrow> nat" where
  "digit_value c =
     (if is_digit c then of_char c - 48
      else if c \<in> set ''abcdef'' then of_char c - 87
      else of_char c - 55)"

definition numeral_value :: "nat \<Rightarrow> string \<Rightarrow> nat" where
  "numeral_value radix ds = foldl (\<lambda>n c. radix * n + digit_value c) 0 ds"

fun strip_sign :: "string \<Rightarrow> bool \<times> string" where
  "strip_sign [] = (False, [])"
| "strip_sign (c # cs) =
     (if c = CHR ''-'' then (True, cs)
      else if c = CHR ''+'' then (False, cs)
      else (False, c # cs))"

text \<open>The factor of an exponent part \<open>e\<close>, sign, digits; 1 when there is none.\<close>

definition exponent_factor :: "string \<Rightarrow> real" where
  "exponent_factor r =
     (case r of
        [] \<Rightarrow> 1
      | c # t \<Rightarrow>
          if c = CHR ''e'' \<or> c = CHR ''E''
          then (let (negative, u) = strip_sign t; ds = takeWhile is_digit u
                in if ds = [] then 1
                   else if negative then 1 / 10 ^ numeral_value 10 ds
                   else 10 ^ numeral_value 10 ds)
          else 1)"

text \<open>The longest prefix that is an unsigned decimal literal, as a number.\<close>

definition unsigned_decimal :: "string \<Rightarrow> jsnum option" where
  "unsigned_decimal s =
     (if take 8 s = ''Infinity'' then Some PosInf
      else
        (let ip = takeWhile is_digit s;
             r = dropWhile is_digit s;
             dotted = (r \<noteq> [] \<and> hd r = CHR ''.'');
             fp = (if dotted then takeWhile is_digit (tl r) else []);
             r' = (if dotted then dropWhile is_digit (tl r) else r)
         in if ip = [] \<and> fp = [] then None
            else Some (round64 ((real (numeral_value 10 ip)
                                   + real (numeral_value 10 fp) / 10 ^ length fp)
                                * exponent_factor r'))))"

definition plain_float :: "string \<Rightarrow> jsnum" where
  "plain_float s =
     (let (negative, u) = strip_sign (dropWhile is_space s)
      in case unsigned_decimal u of
           None \<Rightarrow> NaN
         | Some v \<Rightarrow> if negative then js_neg v else v)"

definition plain_int :: "string \<Rightarrow> int option" where
  "plain_int s =
     (let (negative, u) = strip_sign (dropWhile is_space s);
          hex = (take 2 u = ''0x'' \<or> take 2 u = ''0X'');
          z = (if hex then takeWhile is_hex_digit (drop 2 u) else takeWhile is_digit u);
          n = numeral_value (if hex then 16 else 10) z
      in if z = [] then None
         else (case round64 (real n) of
                 Finite y \<Rightarrow> Some (if negative then - \<lfloor>y\<rfloor> else \<lfloor>y\<rfloor>)
               | _ \<Rightarrow> None))"

definition series_cos :: "real \<Rightarrow> real" where
  "series_cos x = (\<Sum>k \<leftarrow> [0..<21]. (- 1) ^ k * x ^ (2 * k) / of_nat (fact (2 * k)))"

definition rounded_cos :: "real \<Rightarrow> real" where
  "rounded_cos x = (case round64 (series_cos x) of Finite y \<Rightarrow> y | _ \<Rightarrow> 0)"

definition plain :: engine where
  "plain = \<lparr> cosine = rounded_cos, read_float = plain_float, read_int = plain_int \<rparr>"

definition origin :: location where
  "origin = \<lparr> lat = TextFixed False 0 6, lon = TextFixed False 0 6 \<rparr>"

text \<open>An elevation service that answers every coordinate with 5 metres.\<close>

definition flat_api :: "nat \<Rightarrow> location list \<Rightarrow> elev_json upstream" where
  "flat_api k batch = Json (ElevObject (Some ''OK'') None (ResultsArray (map (\<lambda>l. Elev 5) batch)))"


text \<open>One with gaps in its data, and one with no data at all for the area.\<close>

definition gappy_api :: "nat \<Rightarrow> location list \<Rightarrow> elev_json upstream" where
  "gappy_api k batch =
     Json (ElevObject (Some ''OK'') None (ResultsArray [Elev 3, Null, Undefined, Elev 7]))"

definition void_api :: "nat \<Rightarrow> location list \<Rightarrow> elev_json upstream" where
  "void_api k batch = Json (ElevObject (Some ''OK'') None (ResultsArray (map (\<lambda>l. Null) batch)))"

text \<open>One whose second call is refused with status 429.\<close>

definition limited_api :: "nat \<Rightarrow> location list \<Rightarrow> elev_json upstream" where
  "limited_api k batch = (if k = 1 then NotOk 429 ''slow down'' else flat_api k batch)"

text \<open>A geocoder that knows one place, and one that knows none.\<close>

definition one_place :: "string \<Rightarrow> geo_json upstream" where
  "one_place q =
     Json (GeoArray [\<lparr> geo_lat = Some ''10'', geo_lon = Some ''20'', display_name = Some ''Somewhere'' \<rparr>])"

definition no_place :: "string \<Rightarrow> geo_json upstream" where
  "no_place q = Json (GeoArray [])"

text \<open>A geocoder that is down.\<close>

definition unavailable :: "string \<Rightarrow> geo_json upstream" where
  "unavailable q = NotOk 503 ''Service Unavailable''"

definition no_params :: request where
  "no_params = \<lparr> param_q = None, param_lat = None, param_lon = None,
                  param_size = None, param_grid = None \<rparr>"


definition origin_grid2 :: request where
  "origin_grid2 = no_params \<lparr> param_lat := Some ''0'', param_lon := Some ''0'', param_grid := Some ''2'' \<rparr>"

definition query_grid2 :: request where
  "query_grid2 = origin_grid2 \<lparr> param_q := Some ''x'' \<rparr>"

text \<open>
  The result for \<open>?q=x&grid=2\<close> with these collaborators, and a store that holds it
  under the key of that request.
\<close>

definition somewhere :: terrain_result where
  "somewhere =
     \<lparr> name = DisplayName (Some ''Somewhere''), center = (Finite 10, Finite 20),
       elevations = [Elev 5, Elev 5, Elev 5, Elev 5],
       minElev = Finite 5, maxElev = Finite 5, grid = 2 \<rparr>"

definition warm :: env where
  "warm =
     \<lparr> geocode = one_place, elevation = flat_api,
       CACHE = Some [cacheKey (Finite 10) (Finite 20) (Finite 10) 2 \<mapsto> somewhere] \<rparr>"

definition cold :: env where
  "cold = \<lparr> geocode = one_place, elevation = flat_api, CACHE = Some Map.empty \<rparr>"

text \<open>\<open>?lat=0&lon=0&grid=11\<close>: 121 coordinates, two batches.\<close>

definition origin_grid11 :: request where
  "origin_grid11 = no_params \<lparr> param_lat := Some ''0'', param_lon := Some ''0'', param_grid := Some ''11'' \<rparr>"

definition limited :: env where
  "limited = \<lparr> geocode = one_place, elevation = limited_api, CACHE = Some Map.empty \<rparr>"


section \<open>Numbers: NaN absorbs, rounding\<close>

lemma js_add_NaN [simp]: "js_add a NaN = NaN"
  by (cases a) simp_all

lemma js_mul_NaN [simp]: "js_mul a NaN = NaN"
  by (cases a) simp_all

lemma js_div_NaN [simp]: "js_div a NaN = NaN"
  by (cases a) simp_all

lemma exponent64_eq:
  assumes "- 1022 \<le> e" "e \<le> 1023" "2 powi e \<le> a" "a < 2 powi (e + 1)"
  shows "exponent64 a = e"
proof -
  have "2 powi (- 1022) \<le> (2::real) powi e"
    using assms(1) by (intro power_int_increasing) auto
  with assms(3) have ge: "\<not> a < 2 powi (- 1022)" by linarith
  have "Max {k \<in> {- 1022..1023}. 2 powi k \<le> a} = e"
  proof (rule Max_eqI)
    show "finite {k \<in> {- 1022..1023}. 2 powi k \<le> a}"
      by (rule finite_subset [of _ "{- 1022..1023}"]) auto
    show "e \<in> {k \<in> {- 1022..1023}. 2 powi k \<le> a}" using assms by simp
    fix y assume "y \<in> {k \<in> {- 1022..1023}. 2 powi k \<le> a}"
    then have "(2::real) powi y \<le> a" by simp
    with assms(4) have "(2::real) powi y < 2 powi (e + 1)" by linarith
    have "y < e + 1"
    proof (rule ccontr)
      assume "\<not> y < e + 1"
      then have "(2::real) powi (e + 1) \<le> 2 powi y"
        by (intro power_int_increasing) auto
      with \<open>(2::real) powi y < 2 powi (e + 1)\<close> show False by linarith
    qed
    then show "y \<le> e" by simp
  qed
  with ge show ?thesis by (simp add: exponent64_def)
qed

lemma exponent64_bounds:
  assumes "2 powi (- 1022) \<le> a" "a < 2 powi 1024"
  shows "- 1022 \<le> exponent64 a \<and> exponent64 a \<le> 1023 \<and>
         2 powi exponent64 a \<le> a \<and> a < 2 powi (exponent64 a + 1)"
proof -
  let ?S = "{k \<in> {- 1022..1023}. 2 powi k \<le> a}"
  have fin: "finite ?S"
    by (rule finite_subset [of _ "{- 1022..1023}"]) auto
  have "(- 1022::int) \<in> {- 1022..1023}" by simp
  with assms(1) have "- 1022 \<in> ?S" by blast
  then have ne: "?S \<noteq> {}" by blast
  have e: "exponent64 a = Max ?S" using assms(1) by (simp add: exponent64_def)
  from Max_in [OF fin ne] have mem: "Max ?S \<in> ?S" .
  then have b: "- 1022 \<le> Max ?S" "Max ?S \<le> 1023" "2 powi Max ?S \<le> a" by simp_all
  have "a < 2 powi (Max ?S + 1)"
  proof (cases "Max ?S = 1023")
    case True
    with assms(2) show ?thesis by simp
  next
    case False
    with b have "Max ?S + 1 \<in> {- 1022..1023}" by simp
    moreover have "Max ?S + 1 \<notin> ?S"
    proof
      assume "Max ?S + 1 \<in> ?S"
      from Max_ge [OF fin this] show False by simp
    qed
    ultimately show ?thesis by simp
  qed
  with b e show ?thesis by simp
qed

lemma round_half_even_of_int [simp]: "round_half_even (of_int z) = z"
  by (simp add: round_half_even_def)

text \<open>Rounding a number whose binary exponent is known.\<close>

lemma round64_eval:
  assumes "- 1022 \<le> e" "e \<le> 1023" "2 powi e \<le> \<bar>x\<bar>" "\<bar>x\<bar> < 2 powi (e + 1)"
  shows "round64 x =
     (let q = 2 powi (e - 52);
          r = of_int (round_half_even (\<bar>x\<bar> / q)) * q
      in if 2 powi 1024 \<le> r then signed_inf (x < 0)
         else Finite (if x < 0 then - r else r))"
proof -
  have "(0::real) < 2 powi e" by simp
  with assms(3) have "0 < \<bar>x\<bar>" by linarith
  then have nz: "x \<noteq> 0" by simp
  have "(2::real) powi (e + 1) \<le> 2 powi 1024"
    using assms(2) by (intro power_int_increasing) auto
  with assms(4) have lt: "\<not> 2 powi 1024 \<le> \<bar>x\<bar>" by linarith
  from nz lt exponent64_eq [OF assms] show ?thesis
    by (simp add: round64_def)
qed

lemma dyadic_quotient:
  assumes "j \<le> k"
  shows "(of_int z * 2 powi k) / 2 powi j = (of_int (z * 2 ^ nat (k - j)) :: real)"
proof -
  have "(2::real) powi k = 2 powi j * 2 powi (k - j)"
    by (simp flip: power_int_add)
  moreover have "(2::real) powi (k - j) = 2 ^ nat (k - j)"
    using assms by (simp add: power_int_nonneg_exp)
  ultimately show ?thesis by simp
qed

lemma round64_not_NaN [simp]: "round64 x \<noteq> NaN"
  by (simp add: round64_def signed_inf_def Let_def)

lemma round64_zero [simp]: "round64 0 = Finite 0"
  by (simp add: round64_def)

text \<open>A binary64 number rounds to itself.\<close>

lemma round64_dyadic:
  assumes m: "\<bar>m\<bar> < 2 ^ 53" and k: "- 1074 \<le> k" "k \<le> 971"
  shows "round64 (of_int m * 2 powi k) = Finite (of_int m * 2 powi k)"
proof (cases "m = 0")
  case True
  then show ?thesis by simp
next
  case False
  define x :: real where "x = of_int m * 2 powi k"
  define a :: real where "a = of_int \<bar>m\<bar> * 2 powi k"
  have ax: "\<bar>x\<bar> = a"
    by (simp add: x_def a_def abs_mult)
  have pos: "0 < a"
    using False by (simp add: a_def)
  then have nz: "x \<noteq> 0" using ax by auto
  have "real_of_int \<bar>m\<bar> < 2 ^ 53"
    using m by (metis of_int_less_numeral_power_cancel_iff)
  then have "a < 2 ^ 53 * 2 powi k"
    unfolding a_def by (intro mult_strict_right_mono) simp_all
  also have "\<dots> = 2 powi (53 + k)"
    by (simp add: power_int_add)
  finally have upper: "a < 2 powi (53 + k)" .
  have "(2::real) powi (53 + k) \<le> 2 powi 1024"
    using k by (intro power_int_increasing) auto
  with upper have lt: "a < 2 powi 1024" by linarith
  have quantum: "of_int (round_half_even (a / 2 powi j)) * 2 powi j = a" if "j \<le> k" for j
  proof -
    from dyadic_quotient [OF that, of "\<bar>m\<bar>"]
    have "a / 2 powi j = of_int (\<bar>m\<bar> * 2 ^ nat (k - j))"
      by (simp add: a_def)
    then have "of_int (round_half_even (a / 2 powi j)) * 2 powi j = a / 2 powi j * 2 powi j"
      by (simp only: round_half_even_of_int)
    then show ?thesis by simp
  qed
  have "of_int (round_half_even (a / 2 powi (exponent64 a - 52))) * 2 powi (exponent64 a - 52) = a"
  proof (cases "a < 2 powi (- 1022)")
    case True
    then have "exponent64 a = - 1022" by (simp add: exponent64_def)
    with k show ?thesis by (simp only: quantum)
  next
    case False
    then have "2 powi (- 1022) \<le> a" by simp
    from exponent64_bounds [OF this lt] have "2 powi exponent64 a \<le> a" by simp
    with upper have "(2::real) powi exponent64 a < 2 powi (53 + k)" by linarith
    have "exponent64 a < 53 + k"
    proof (rule ccontr)
      assume "\<not> exponent64 a < 53 + k"
      then have "(2::real) powi (53 + k) \<le> 2 powi exponent64 a"
        by (intro power_int_increasing) auto
      with \<open>(2::real) powi exponent64 a < 2 powi (53 + k)\<close> show False by linarith
    qed
    then have "exponent64 a - 52 \<le> k" by simp
    then show ?thesis by (rule quantum)
  qed
  with nz lt pos show ?thesis
    unfolding round64_def Let_def ax x_def [symmetric]
    by (auto simp: ax [symmetric])
qed

lemma round64_of_int: "\<bar>m\<bar> < 2 ^ 53 \<Longrightarrow> round64 (of_int m) = Finite (of_int m)"
  using round64_dyadic [of m 0] by simp











text \<open>Small integers and one half are binary64 numbers.\<close>

lemma round64_numeral [simp]:
  "(numeral n :: int) < 2 ^ 53 \<Longrightarrow> round64 (numeral n) = Finite (numeral n)"
  using round64_of_int [of "numeral n"] by simp

lemma round64_one [simp]: "round64 1 = Finite 1"
  using round64_of_int [of 1] by simp

lemma round64_half [simp]: "round64 (1 / 2) = Finite (1 / 2)"
  using round64_dyadic [of 1 "- 1"] by (simp add: power_int_minus)

lemmas rounding = round_half_even_def power_int_minus Let_def

lemma toFixed_close:
  assumes "\<bar>x\<bar> < 10 ^ 21"
  shows "\<exists>v. numtext_value (toFixed f (Finite x)) = Some v \<and> \<bar>v - x\<bar> \<le> 1 / (2 * 10 ^ f)"
proof -
  define y :: real where "y = \<bar>x\<bar> * 10 ^ f"
  define n :: int where "n = \<lfloor>y + 1 / 2\<rfloor>"
  have y: "0 \<le> y" by (simp add: y_def)
  then have n: "0 \<le> n" by (simp add: n_def)
  have close: "\<bar>real_of_int n - y\<bar> \<le> 1 / 2"
    unfolding n_def by linarith
  have "\<bar>real_of_int n / 10 ^ f - \<bar>x\<bar>\<bar> = \<bar>real_of_int n - y\<bar> / 10 ^ f"
    by (simp add: y_def field_simps abs_divide flip: abs_mult_pos)
  also have "\<dots> \<le> (1 / 2) / 10 ^ f"
    using close by (intro divide_right_mono) simp_all
  finally have d: "\<bar>real_of_int n / 10 ^ f - \<bar>x\<bar>\<bar> \<le> 1 / (2 * 10 ^ f)" by simp
  from assms n have "toFixed f (Finite x) = TextFixed (x < 0) (nat n) f"
    by (simp add: n_def y_def)
  with n d show ?thesis
    by (cases "x < 0") (auto simp: abs_real_def split: if_splits)
qed

section \<open>The grid loops in closed form\<close>

lemma grid_columns_eq:
  "grid_columns js centerLat centerLon size_km g i j locations =
     locations @ map (grid_point js centerLat centerLon size_km g i) [j..g - 1]"
proof (induction js centerLat centerLon size_km g i j locations rule: grid_columns.induct)
  case (1 js centerLat centerLon size_km g i j locations)
  show ?case
  proof (cases "j < g")
    case True
    then have "[j..g - 1] = j # [j + 1..g - 1]"
      by (simp add: upto_rec1)
    with True "1.IH" show ?thesis
      by (subst grid_columns.simps) simp
  next
    case False
    then show ?thesis
      by (subst grid_columns.simps) simp
  qed
qed

lemma grid_rows_eq:
  "grid_rows js centerLat centerLon size_km g i locations =
     locations @ concat (map (\<lambda>r. map (grid_point js centerLat centerLon size_km g r) [0..g - 1])
                          [i..g - 1])"
proof (induction js centerLat centerLon size_km g i locations rule: grid_rows.induct)
  case (1 js centerLat centerLon size_km g i locations)
  show ?case
  proof (cases "i < g")
    case True
    then have "[i..g - 1] = i # [i + 1..g - 1]"
      by (simp add: upto_rec1)
    with True "1.IH" show ?thesis
      by (subst grid_rows.simps) (simp add: grid_columns_eq)
  next
    case False
    then show ?thesis
      by (subst grid_rows.simps) simp
  qed
qed

lemma nth_concat_uniform:
  "\<forall>xs \<in> set xss. length xs = n \<Longrightarrow> i < length xss \<Longrightarrow> j < n \<Longrightarrow>
     concat xss ! (i * n + j) = xss ! i ! j"
proof (induction xss arbitrary: i)
  case Nil
  then show ?case by simp
next
  case (Cons xs xss)
  show ?case
  proof (cases i)
    case 0
    with Cons.prems show ?thesis by (simp add: nth_append)
  next
    case (Suc k)
    with Cons.prems have "concat xss ! (k * n + j) = xss ! k ! j"
      by (intro Cons.IH) auto
    with Suc Cons.prems show ?thesis
      by (simp add: nth_append add.assoc)
  qed
qed

lemma length_concat_uniform:
  "\<forall>xs \<in> set xss. length xs = n \<Longrightarrow> length (concat xss) = length xss * n"
  by (induction xss) auto

lemma generate_grid_eq:
  "generate_grid js centerLat centerLon size_km g =
     concat (map (\<lambda>r. map (grid_point js centerLat centerLon size_km g r) [0..g - 1])
                 [0..g - 1])"
  by (simp add: generate_grid_def grid_rows_eq)

lemma length_generate_grid:
  "length (generate_grid js centerLat centerLon size_km g) = nat g * nat g"
  unfolding generate_grid_eq
  by (subst length_concat_uniform [where n = "nat g"]) auto

lemma nth_generate_grid:
  assumes "0 \<le> i" "i < g" "0 \<le> j" "j < g"
  shows "generate_grid js centerLat centerLon size_km g ! (nat i * nat g + nat j) =
           grid_point js centerLat centerLon size_km g i j"
  unfolding generate_grid_eq
  using assms
  by (subst nth_concat_uniform [where n = "nat g"]) auto






text \<open>The grid of 3 around the origin, size 10: row 2, column 1.\<close>

lemma fraction_3_2: "offset_fraction 3 2 = Finite (1 / 2)"
  by (simp add: offset_fraction_def js_sub_def)

lemma fraction_3_1: "offset_fraction 3 1 = Finite 0"
  by (simp add: offset_fraction_def js_sub_def)

lemma lat_3_2: "latOffset (Finite 10) 3 2 = Finite (6491675138552066 / 2 ^ 57)"
  by (simp add: latOffset_def kmPerDegLat_def fraction_3_2 rounding round64_eval [where e = "- 5"])

lemma sum_3_2:
  "js_add (Finite 0) (latOffset (Finite 10) 3 2) = Finite (6491675138552066 / 2 ^ 57)"
  by (simp add: lat_3_2 rounding round64_eval [where e = "- 5"])

lemma lon_3_1: "js_add (Finite 0) (lonOffset js (Finite 0) (Finite 10) 3 1) = Finite 0"
  by (simp add: lonOffset_def kmPerDegLon_def fraction_3_1)

section \<open>The batch loop in closed form\<close>

lemma chunks_Nil [simp]: "chunks n [] = []"
  by (simp add: chunks.simps)

lemma chunks_step: "0 < n \<Longrightarrow> xs \<noteq> [] \<Longrightarrow> chunks n xs = take n xs # chunks n (drop n xs)"
  by (subst chunks.simps) simp

lemma chunks_eq_Nil: "0 < n \<Longrightarrow> chunks n xs = [] \<longleftrightarrow> xs = []"
  by (subst chunks.simps) simp

lemma concat_chunks: "0 < n \<Longrightarrow> concat (chunks n xs) = xs"
proof (induction n xs rule: chunks.induct)
  case (1 n xs)
  then show ?case
    by (cases "xs = []") (simp_all add: chunks_step)
qed

lemma chunks_bounds: "0 < n \<Longrightarrow> b \<in> set (chunks n xs) \<Longrightarrow> b \<noteq> [] \<and> length b \<le> n"
proof (induction n xs rule: chunks.induct)
  case (1 n xs)
  show ?case
  proof (cases "xs = []")
    case True
    with "1.prems" show ?thesis by simp
  next
    case False
    with "1.prems" have "b = take n xs \<or> b \<in> set (chunks n (drop n xs))"
      by (simp add: chunks_step)
    with False "1.prems" "1.IH" show ?thesis
      by auto
  qed
qed

lemma length_chunks: "0 < n \<Longrightarrow> length (chunks n xs) = (length xs + (n - 1)) div n"
proof (induction n xs rule: chunks.induct)
  case (1 n xs)
  show ?case
  proof (cases "xs = []")
    case True
    with "1.prems" show ?thesis by simp
  next
    case False
    then have pos: "0 < length xs" by simp
    from False "1.prems" "1.IH"
    have step: "length (chunks n xs) = Suc ((length xs - n + (n - 1)) div n)"
      by (simp add: chunks_step)
    show ?thesis
    proof (cases "n \<le> length xs")
      case True
      then have "length xs + (n - 1) = (length xs - n + (n - 1)) + n"
        by simp
      then have "(length xs + (n - 1)) div n = Suc ((length xs - n + (n - 1)) div n)"
        using "1.prems" by (simp only: div_add_self2)
      with step show ?thesis by simp
    next
      case False
      then have a: "length xs - n + (n - 1) < n"
        using "1.prems" by simp
      from False pos "1.prems" have "length xs + (n - 1) = (length xs - 1) + n" "length xs - 1 < n"
        by arith+
      then have b: "(length xs + (n - 1)) div n = Suc ((length xs - 1) div n)" "length xs - 1 < n"
        using "1.prems" by (simp_all only: div_add_self2)
      from a b step show ?thesis by (simp only: div_less)
    qed
  qed
qed

lemma seq_unfold:
  "sequential_batches api k (b # bs) =
     (case batch_elevations (api k b) of
        Inl e \<Rightarrow> (Inl e, [ElevCall b (api k b)])
      | Inr out \<Rightarrow>
          (map_sum id ((@) out) (fst (sequential_batches api (Suc k) bs)),
           ElevCall b (api k b) # (if bs = [] then [] else [Delay 2000])
             @ snd (sequential_batches api (Suc k) bs)))"
  by (auto split: sum.splits prod.splits)

lemma map_sum_append:
  "map_sum id ((@) (acc @ out)) r = map_sum id ((@) acc) (map_sum id ((@) out) r)"
  by (cases r) simp_all

lemma fetch_batches_eq:
  "fetch_batches api locations i acc events =
     (map_sum id ((@) acc)
        (fst (sequential_batches api (i div BATCH_SIZE) (chunks BATCH_SIZE (drop i locations)))),
      events @ snd (sequential_batches api (i div BATCH_SIZE) (chunks BATCH_SIZE (drop i locations))))"
proof (induction api locations i acc events rule: fetch_batches.induct)
  case (1 api locations i acc events)
  show ?case
  proof (cases "i < length locations")
    case False
    then show ?thesis
      by (subst fetch_batches.simps) simp
  next
    case True
    let ?batch = "take BATCH_SIZE (drop i locations)"
    let ?reply = "api (i div BATCH_SIZE) ?batch"
    let ?rest = "sequential_batches api (Suc (i div BATCH_SIZE))
                   (chunks BATCH_SIZE (drop (i + BATCH_SIZE) locations))"
    let ?pause = "if i + BATCH_SIZE < length locations then [Delay 2000] else []"
    have pos: "0 < BATCH_SIZE" by (simp add: BATCH_SIZE_def)
    from True have ne: "drop i locations \<noteq> []" by simp
    have ch: "chunks BATCH_SIZE (drop i locations) =
                ?batch # chunks BATCH_SIZE (drop (i + BATCH_SIZE) locations)"
      using chunks_step [OF pos ne] by (simp add: add.commute)
    have idx: "(i + BATCH_SIZE) div BATCH_SIZE = Suc (i div BATCH_SIZE)"
      using pos by simp
    have more: "chunks BATCH_SIZE (drop (i + BATCH_SIZE) locations) = [] \<longleftrightarrow>
                  \<not> i + BATCH_SIZE < length locations"
      by (simp add: chunks_eq_Nil [OF pos] not_less)
    show ?thesis
    proof (cases "batch_elevations ?reply")
      case (Inl e)
      with True show ?thesis
        by (subst fetch_batches.simps) (simp add: ch Let_def)
    next
      case (Inr out)
      have seq: "sequential_batches api (i div BATCH_SIZE) (chunks BATCH_SIZE (drop i locations)) =
                   (map_sum id ((@) out) (fst ?rest),
                    ElevCall ?batch ?reply # ?pause @ snd ?rest)"
        unfolding ch seq_unfold using Inr more by simp
      note IH = "1.IH" [OF True refl refl refl Inr, unfolded idx]
      show ?thesis
        apply (subst fetch_batches.simps)
        apply (simp only: True if_True Let_def Inr sum.case IH seq fst_conv snd_conv)
        apply (simp add: map_sum_append)
        done
    qed
  qed
qed

lemma fetch_elevations_eq:
  "fetch_elevations api locations = sequential_batches api 0 (chunks BATCH_SIZE locations)"
  unfolding fetch_elevations_def fetch_batches_eq
  by (cases "fst (sequential_batches api 0 (chunks BATCH_SIZE locations))")
     (simp_all add: prod_eq_iff sum.map_ident)

lemma sequential_all_ok:
  "(\<And>j. j < length bs \<Longrightarrow> batch_elevations (api (k + j) (bs ! j)) = Inr (outs (k + j))) \<Longrightarrow>
     sequential_batches api k bs =
       (Inr (concat (map outs [k..<k + length bs])), schedule api k bs)"
proof (induction bs arbitrary: k)
  case Nil
  then show ?case by simp
next
  case (Cons b bs)
  from Cons.prems [of 0] have first: "batch_elevations (api k b) = Inr (outs k)"
    by simp
  have "sequential_batches api (Suc k) bs =
          (Inr (concat (map outs [Suc k..<Suc k + length bs])), schedule api (Suc k) bs)"
  proof (rule Cons.IH)
    fix j
    assume "j < length bs"
    with Cons.prems [of "Suc j"] show "batch_elevations (api (Suc k + j) (bs ! j)) = Inr (outs (Suc k + j))"
      by simp
  qed
  moreover have "[k..<k + length (b # bs)] = k # [Suc k..<Suc k + length bs]"
    by (simp add: upt_conv_Cons del: upt_Suc)
  ultimately show ?case
    using first by (simp del: upt_Suc)
qed

lemma sequential_trace_initial:
  "snd (sequential_batches api k bs) =
     take (length (snd (sequential_batches api k bs))) (schedule api k bs)"
proof (induction bs arbitrary: k)
  case Nil
  then show ?case by simp
next
  case (Cons b bs)
  show ?case
  proof (cases "batch_elevations (api k b)")
    case (Inl e)
    then show ?thesis by simp
  next
    case (Inr out)
    with Cons.IH [of "Suc k"] show ?thesis
      by (cases "sequential_batches api (Suc k) bs"; cases "fst (sequential_batches api (Suc k) bs)")
         (auto split: sum.splits)
  qed
qed

lemma calls_schedule: "calls (schedule api k bs) = bs"
  by (induction bs arbitrary: k) auto

lemma length_schedule: "length (schedule api k bs) = 2 * length bs - 1"
  by (induction bs arbitrary: k) (auto simp: neq_Nil_conv)

lemma delays_schedule: "length (filter is_delay (schedule api k bs)) = length bs - 1"
  by (induction bs arbitrary: k) (auto simp: neq_Nil_conv)

lemma schedule_alternates:
  "i < length (schedule api k bs) \<Longrightarrow>
     (if even i then is_call (schedule api k bs ! i) else schedule api k bs ! i = Delay 2000)"
proof (induction bs arbitrary: k i)
  case Nil
  then show ?case by simp
next
  case (Cons b bs)
  show ?case
  proof (cases "bs = []")
    case True
    with Cons.prems show ?thesis by simp
  next
    case False
    show ?thesis
    proof (cases i)
      case 0
      then show ?thesis by simp
    next
      case (Suc i')
      show ?thesis
      proof (cases i')
        case 0
        with Suc False show ?thesis by simp
      next
        case (Suc i'')
        with \<open>i = Suc i'\<close> False Cons.prems have "i'' < length (schedule api (Suc k) bs)"
          by simp
        from Cons.IH [OF this] Suc \<open>i = Suc i'\<close> False show ?thesis
          by simp
      qed
    qed
  qed
qed


lemma chunks_grid_40:
  "length (chunks BATCH_SIZE (generate_grid js cLat cLon sizeKm 40)) = 16"
  by (simp add: length_chunks length_generate_grid BATCH_SIZE_def)

section \<open>Evaluating the handler\<close>

lemmas parse_defs = parseFloat_def parseInt_def plain_def plain_float_def plain_int_def
  unsigned_decimal_def exponent_factor_def
  numeral_value_def digit_value_def is_digit_def is_hex_digit_def is_space_def truthy_def
  size_or_default_def grid_or_default_def requested_size_def requested_grid_def



lemma chunks_single: "0 < length xs \<Longrightarrow> length xs \<le> n \<Longrightarrow> chunks n xs = [xs]"
  by (subst chunks.simps, cases xs) auto


lemma compute_trace:
  "snd (compute js e (cLat, cLon, nm) sizeKm n) =
     snd (fetch_elevations (elevation e) (generate_grid js cLat cLon sizeKm n))"
  by (auto simp: compute_def Let_def split: prod.splits sum.splits)

section \<open>The aggregator on samples\<close>

lemma valid_iff: "valid s \<longleftrightarrow> (\<exists>x. s = Elev x)"
  by (cases s) (simp_all add: valid_def)

lemma math_min_finite:
  "xs \<noteq> [] \<Longrightarrow> math_min (map Finite xs) = Finite (Min (set xs))"
proof (induction xs)
  case Nil
  then show ?case by simp
next
  case (Cons x xs)
  show ?case
  proof (cases "xs = []")
    case True
    then show ?thesis by (simp add: math_min_def)
  next
    case False
    with Cons.IH have "math_min (map Finite xs) = Finite (Min (set xs))" by simp
    with False show ?thesis
      by (simp add: math_min_def)
  qed
qed

lemma math_max_finite:
  "xs \<noteq> [] \<Longrightarrow> math_max (map Finite xs) = Finite (Max (set xs))"
proof (induction xs)
  case Nil
  then show ?case by simp
next
  case (Cons x xs)
  show ?case
  proof (cases "xs = []")
    case True
    then show ?thesis by (simp add: math_max_def)
  next
    case False
    with Cons.IH have "math_max (map Finite xs) = Finite (Max (set xs))" by simp
    with False show ?thesis
      by (simp add: math_max_def)
  qed
qed

text \<open>The numbers among the samples, in order.\<close>

lemma to_number_valid:
  "map to_number (filter valid samples) = map Finite (map elevation_of (filter valid samples))"
  by (induction samples) (auto simp: valid_iff)

lemma set_valid_numbers:
  "set (map elevation_of (filter valid samples)) = {x. Elev x \<in> set samples}"
  by (induction samples) (auto simp: valid_iff)

lemma aggregate_eq:
  "aggregate samples =
     (if \<exists>x. Elev x \<in> set samples
      then Inr (Finite (Min {x. Elev x \<in> set samples}), Finite (Max {x. Elev x \<in> set samples}))
      else Inl (Error ''No valid elevation data for this location''))"
proof (cases "\<exists>x. Elev x \<in> set samples")
  case True
  then have ne: "map elevation_of (filter valid samples) \<noteq> []"
    using set_valid_numbers [of samples] by (metis empty_Collect_eq empty_set)
  then have "filter valid samples \<noteq> []" by auto
  with True ne show ?thesis
    by (simp add: aggregate_def Let_def to_number_valid math_min_finite math_max_finite
          set_valid_numbers del: set_map map_map)
next
  case False
  then have "filter valid samples = []"
    by (auto simp: filter_empty_conv valid_iff)
  with False show ?thesis
    by (simp add: aggregate_def)
qed


section \<open>Failing and succeeding fetches\<close>

lemma sequential_ok_calls:
  "fst (sequential_batches api k bs) = Inr outs \<Longrightarrow>
     ElevCall b r \<in> set (snd (sequential_batches api k bs)) \<Longrightarrow>
     \<exists>out. batch_elevations r = Inr out"
proof (induction bs arbitrary: k outs)
  case Nil
  then show ?case by simp
next
  case (Cons c cs)
  show ?case
  proof (cases "batch_elevations (api k c)")
    case (Inl e)
    with Cons.prems show ?thesis by simp
  next
    case (Inr out)
    show ?thesis
    proof (cases "fst (sequential_batches api (Suc k) cs)")
      case (Inl e)
      with Inr Cons.prems show ?thesis
        by (auto split: prod.splits sum.splits)
    next
      case tail: (Inr rest)
      from Inr tail Cons.prems(2)
      have "ElevCall b r = ElevCall c (api k c) \<or>
            ElevCall b r \<in> set (snd (sequential_batches api (Suc k) cs))"
        by (auto split: prod.splits sum.splits if_splits)
      then show ?thesis
      proof
        assume "ElevCall b r = ElevCall c (api k c)"
        with Inr show ?thesis by auto
      next
        assume "ElevCall b r \<in> set (snd (sequential_batches api (Suc k) cs))"
        with Cons.IH [OF tail] show ?thesis by blast
      qed
    qed
  qed
qed

lemma sequential_failure:
  "fst (sequential_batches api k bs) = Inl err \<Longrightarrow>
     (\<exists>b r. snd (sequential_batches api k bs) \<noteq> [] \<and>
            last (snd (sequential_batches api k bs)) = ElevCall b r \<and>
            batch_elevations r = Inl err) \<and>
     (\<forall>b r. ElevCall b r \<in> set (butlast (snd (sequential_batches api k bs))) \<longrightarrow>
            (\<exists>out. batch_elevations r = Inr out)) \<and>
     \<not> list_ex is_put (snd (sequential_batches api k bs))"
proof (induction bs arbitrary: k)
  case Nil
  then show ?case by simp
next
  case (Cons c cs)
  show ?case
  proof (cases "batch_elevations (api k c)")
    case (Inl e)
    with Cons.prems show ?thesis by simp
  next
    case (Inr out)
    with Cons.prems have tail: "fst (sequential_batches api (Suc k) cs) = Inl err"
      by (auto split: prod.splits sum.splits)
    from Cons.IH [OF tail] obtain b r where
      ne: "snd (sequential_batches api (Suc k) cs) \<noteq> []" and
      lst: "last (snd (sequential_batches api (Suc k) cs)) = ElevCall b r" and
      bad: "batch_elevations r = Inl err" and
      good: "\<forall>b r. ElevCall b r \<in> set (butlast (snd (sequential_batches api (Suc k) cs))) \<longrightarrow>
              (\<exists>out. batch_elevations r = Inr out)" and
      noput: "\<not> list_ex is_put (snd (sequential_batches api (Suc k) cs))"
      by blast
    have shape: "snd (sequential_batches api k (c # cs)) =
                   ElevCall c (api k c) # (if cs = [] then [] else [Delay 2000])
                     @ snd (sequential_batches api (Suc k) cs)"
      using Inr by (auto split: prod.splits sum.splits)
    have "last (snd (sequential_batches api k (c # cs))) = ElevCall b r"
      unfolding shape using ne lst by simp
    moreover have "\<forall>b r. ElevCall b r \<in> set (butlast (snd (sequential_batches api k (c # cs)))) \<longrightarrow>
              (\<exists>out. batch_elevations r = Inr out)"
      unfolding shape using ne good Inr by (auto simp: butlast_append)
    moreover have "\<not> list_ex is_put (snd (sequential_batches api k (c # cs)))"
      unfolding shape using noput by simp
    ultimately show ?thesis
      using bad shape by auto
  qed
qed

lemma sequential_no_put: "\<not> list_ex is_put (snd (sequential_batches api k bs))"
  by (induction bs arbitrary: k)
     (auto simp: seq_unfold simp del: sequential_batches.simps(2) split: sum.splits)


section \<open>The handler by stages\<close>

lemma terrain_unfold:
  "terrain js e req =
     (case validate (fst (resolve js e req)) of
        Return r \<Rightarrow> \<lparr> reply = r, store = CACHE e, trace = snd (resolve js e req) \<rparr>
      | Throw err \<Rightarrow> \<lparr> reply = error_response err, store = CACHE e, trace = snd (resolve js e req) \<rparr>
      | Next c \<Rightarrow> serve js e c (requested_size js req) (requested_grid js req) (snd (resolve js e req)))"
  by (simp add: terrain_def Let_def case_prod_beta)

lemma serve_hit:
  "fst (cache_get e (cacheKey cLat cLon s n)) = Some r \<Longrightarrow>
     serve js e (cLat, cLon, nm) s n earlier =
       \<lparr> reply = ok_response r True, store = CACHE e,
         trace = earlier @ snd (cache_get e (cacheKey cLat cLon s n)) \<rparr>"
  by (simp add: serve_def Let_def case_prod_beta)

lemma serve_failed:
  "fst (cache_get e (cacheKey cLat cLon s n)) = None \<Longrightarrow>
   fst (compute js e (cLat, cLon, nm) s n) = Inl err \<Longrightarrow>
     serve js e (cLat, cLon, nm) s n earlier =
       \<lparr> reply = error_response err, store = CACHE e,
         trace = earlier @ snd (cache_get e (cacheKey cLat cLon s n))
                   @ snd (compute js e (cLat, cLon, nm) s n) \<rparr>"
  by (simp add: serve_def Let_def case_prod_beta)

lemma serve_computed:
  "fst (cache_get e (cacheKey cLat cLon s n)) = None \<Longrightarrow>
   fst (compute js e (cLat, cLon, nm) s n) = Inr result \<Longrightarrow>
     serve js e (cLat, cLon, nm) s n earlier =
       \<lparr> reply = ok_response result False,
         store = fst (cache_put e (cacheKey cLat cLon s n) result),
         trace = earlier @ snd (cache_get e (cacheKey cLat cLon s n))
                   @ snd (compute js e (cLat, cLon, nm) s n)
                   @ snd (cache_put e (cacheKey cLat cLon s n) result) \<rparr>"
  by (simp add: serve_def Let_def case_prod_beta)

lemma compute_result:
  "fst (compute js e (cLat, cLon, nm) s n) =
     (case fst (fetch_elevations (elevation e) (generate_grid js cLat cLon s n)) of
        Inl err \<Rightarrow> Inl err
      | Inr samples \<Rightarrow>
          (case aggregate samples of
             Inl err \<Rightarrow> Inl err
           | Inr (lo, hi) \<Rightarrow>
               Inr \<lparr> name = nm, center = (cLat, cLon), elevations = samples,
                     minElev = lo, maxElev = hi, grid = n \<rparr>))"
  by (simp add: compute_def Let_def case_prod_beta split: sum.splits)

lemma resolve_events:
  "snd (resolve js e req) =
     (case param_q req of
        None \<Rightarrow> []
      | Some q \<Rightarrow> if q = [] then [] else [GeoCall q (geocode e q)])"
  by (simp add: resolve_def split: option.splits)

lemma error_response_shape:
  "status (error_response err) = 500 \<and> (\<exists>m d. body (error_response err) = ErrorBody m (Some d))"
  by (cases err) (simp add: error_response_def)

lemma validate_Return:
  "validate s = Return r \<Longrightarrow> r = not_found \<or> r = missing_params \<or> r = invalid_coordinates \<or> s = Return r"
  by (cases s) (auto split: if_splits)


lemma resolve_no_call [simp]: "ElevCall b r \<notin> set (snd (resolve js e req))"
  by (simp add: resolve_events split: option.splits)

lemma resolve_no_put [simp]: "\<not> list_ex is_put (snd (resolve js e req))"
  by (simp add: resolve_events split: option.splits)

lemma lookup_no_call [simp]: "ElevCall b r \<notin> set (snd (cache_get e k))"
  by (simp add: cache_get_def split: option.splits)

lemma lookup_no_put [simp]: "\<not> list_ex is_put (snd (cache_get e k))"
  by (simp add: cache_get_def split: option.splits)

lemma fetch_no_put [simp]: "\<not> list_ex is_put (snd (fetch_elevations api locations))"
  by (simp add: fetch_elevations_eq sequential_no_put)

lemma compute_failed:
  "fst (compute js e (cLat, cLon, nm) s n) = Inl err \<Longrightarrow>
     fst (fetch_elevations (elevation e) (generate_grid js cLat cLon s n)) = Inl err \<or>
     (\<exists>samples. fst (fetch_elevations (elevation e) (generate_grid js cLat cLon s n)) = Inr samples \<and>
        aggregate samples = Inl err)"
  by (auto simp: compute_result split: sum.splits)

lemma compute_succeeded:
  "fst (compute js e (cLat, cLon, nm) s n) = Inr result \<Longrightarrow>
     \<exists>samples lo hi.
       fst (fetch_elevations (elevation e) (generate_grid js cLat cLon s n)) = Inr samples \<and>
       aggregate samples = Inr (lo, hi) \<and>
       result = \<lparr> name = nm, center = (cLat, cLon), elevations = samples,
                  minElev = lo, maxElev = hi, grid = n \<rparr>"
  by (auto simp: compute_result split: sum.splits)

text \<open>A failed elevation call ends the request: it is the last event, and the answer is its error.\<close>

lemma failed_call_ends_request:
  assumes call: "ElevCall b r \<in> set (trace (terrain js e req))"
    and bad: "batch_elevations r = Inl err"
  shows "reply (terrain js e req) = error_response err \<and>
         store (terrain js e req) = CACHE e \<and>
         \<not> list_ex is_put (trace (terrain js e req)) \<and>
         last (trace (terrain js e req)) = ElevCall b r \<and>
         (\<forall>b' r'. ElevCall b' r' \<in> set (butlast (trace (terrain js e req))) \<longrightarrow>
            (\<exists>out. batch_elevations r' = Inr out))"
proof (cases "validate (fst (resolve js e req))")
  case (Return x)
  with call show ?thesis by (simp add: terrain_unfold)
next
  case (Throw x)
  with call show ?thesis by (simp add: terrain_unfold)
next
  case (Next c)
  obtain cLat cLon nm where c: "c = (cLat, cLon, nm)" by (cases c) auto
  let ?s = "requested_size js req" and ?n = "requested_grid js req"
  let ?earlier = "snd (resolve js e req)"
  let ?looked = "snd (cache_get e (cacheKey cLat cLon ?s ?n))"
  let ?locations = "generate_grid js cLat cLon ?s ?n"
  let ?events = "snd (fetch_elevations (elevation e) ?locations)"
  have t: "terrain js e req = serve js e (cLat, cLon, nm) ?s ?n ?earlier"
    using Next c by (simp add: terrain_unfold)
  show ?thesis
  proof (cases "fst (cache_get e (cacheKey cLat cLon ?s ?n))")
    case (Some hit)
    with call show ?thesis by (simp add: t serve_hit)
  next
    case None
    have all_good: False if "fst (fetch_elevations (elevation e) ?locations) = Inr samples"
      and "ElevCall b r \<in> set ?events" for samples
      using sequential_ok_calls [of "elevation e" 0 "chunks BATCH_SIZE ?locations" samples b r]
        that bad by (simp add: fetch_elevations_eq)
    show ?thesis
    proof (cases "fst (compute js e (cLat, cLon, nm) ?s ?n)")
      case (Inr result)
      with None have tr: "trace (terrain js e req) =
          ?earlier @ ?looked @ ?events @ snd (cache_put e (cacheKey cLat cLon ?s ?n) result)"
        by (simp add: t serve_computed compute_trace)
      from call have "ElevCall b r \<in> set ?events"
        unfolding tr by (auto simp: cache_put_def split: option.splits)
      with compute_succeeded [OF Inr] all_good show ?thesis by blast
    next
      case (Inl err')
      with None have tr: "trace (terrain js e req) = ?earlier @ ?looked @ ?events"
        and rp: "reply (terrain js e req) = error_response err'"
        and st: "store (terrain js e req) = CACHE e"
        by (simp_all add: t serve_failed compute_trace)
      from call have ev: "ElevCall b r \<in> set ?events"
        unfolding tr by auto
      with compute_failed [OF Inl] all_good
      have failed: "fst (fetch_elevations (elevation e) ?locations) = Inl err'"
        by blast
      then have "fst (sequential_batches (elevation e) 0 (chunks BATCH_SIZE ?locations)) = Inl err'"
        by (simp add: fetch_elevations_eq)
      from sequential_failure [OF this] obtain b0 r0 where
        ne: "?events \<noteq> []" and lst: "last ?events = ElevCall b0 r0" and
        bad0: "batch_elevations r0 = Inl err'" and
        good: "\<forall>b r. ElevCall b r \<in> set (butlast ?events) \<longrightarrow> (\<exists>out. batch_elevations r = Inr out)"
        by (auto simp: fetch_elevations_eq)
      from ne have split: "?events = butlast ?events @ [last ?events]" by simp
      from ev have "ElevCall b r \<in> set (butlast ?events) \<or> ElevCall b r = last ?events"
        by (subst (asm) split) auto
      with good bad lst have same: "ElevCall b r = ElevCall b0 r0"
        by (metis Inl_Inr_False)
      with bad bad0 have "err' = err" by simp
      moreover have "last (trace (terrain js e req)) = ElevCall b r"
        unfolding tr using ne lst same by simp
      moreover have "\<forall>b' r'. ElevCall b' r' \<in> set (butlast (trace (terrain js e req))) \<longrightarrow>
            (\<exists>out. batch_elevations r' = Inr out)"
        unfolding tr using ne good by (auto simp: butlast_append)
      moreover have "\<not> list_ex is_put (trace (terrain js e req))"
        unfolding tr by simp
      ultimately show ?thesis
        using rp st by simp
    qed
  qed
qed

lemma bad_reply_fails:
  "non_success r \<or> malformed r \<Longrightarrow> \<exists>err. batch_elevations r = Inl err"
  by (cases r rule: malformed.cases) auto

lemma chunks_two:
  "n < length xs \<Longrightarrow> length xs \<le> 2 * n \<Longrightarrow> chunks n xs = [take n xs, drop n xs]"
  by (subst chunks_step) (auto simp: chunks_single)

lemma limited_trace:
  "trace (terrain plain limited origin_grid11) =
     [CacheGet (cacheKey (Finite 0) (Finite 0) (Finite 10) 11) None,
      ElevCall (take 100 (generate_grid plain (Finite 0) (Finite 0) (Finite 10) 11))
        (flat_api 0 (take 100 (generate_grid plain (Finite 0) (Finite 0) (Finite 10) 11))),
      Delay 2000,
      ElevCall (drop 100 (generate_grid plain (Finite 0) (Finite 0) (Finite 10) 11))
        (NotOk 429 ''slow down'')]"
proof -
  have "chunks BATCH_SIZE (generate_grid plain (Finite 0) (Finite 0) (Finite 10) 11) =
          [take 100 (generate_grid plain (Finite 0) (Finite 0) (Finite 10) 11),
           drop 100 (generate_grid plain (Finite 0) (Finite 0) (Finite 10) 11)]"
    unfolding BATCH_SIZE_def by (rule chunks_two) (simp_all add: length_generate_grid)
  then show ?thesis
    by (simp add: terrain_unfold resolve_def explicit_coordinates_def parse_defs
          origin_grid11_def no_params_def limited_def serve_def cache_get_def Let_def
          compute_def fetch_elevations_eq limited_api_def flat_api_def)
qed

lemma terrain_cases [case_names Returned Thrown Hit Failed Computed]:
  obtains
    (Returned) r where
      "validate (fst (resolve js e req)) = Return r"
      "terrain js e req = \<lparr> reply = r, store = CACHE e, trace = snd (resolve js e req) \<rparr>"
  | (Thrown) err where
      "validate (fst (resolve js e req)) = Throw err"
      "terrain js e req = \<lparr> reply = error_response err, store = CACHE e, trace = snd (resolve js e req) \<rparr>"
  | (Hit) cLat cLon nm r where
      "validate (fst (resolve js e req)) = Next (cLat, cLon, nm)"
      "fst (cache_get e (cacheKey cLat cLon (requested_size js req) (requested_grid js req))) = Some r"
      "terrain js e req =
         \<lparr> reply = ok_response r True, store = CACHE e,
           trace = snd (resolve js e req)
             @ snd (cache_get e (cacheKey cLat cLon (requested_size js req) (requested_grid js req))) \<rparr>"
  | (Failed) cLat cLon nm err where
      "validate (fst (resolve js e req)) = Next (cLat, cLon, nm)"
      "fst (cache_get e (cacheKey cLat cLon (requested_size js req) (requested_grid js req))) = None"
      "fst (compute js e (cLat, cLon, nm) (requested_size js req) (requested_grid js req)) = Inl err"
      "terrain js e req =
         \<lparr> reply = error_response err, store = CACHE e,
           trace = snd (resolve js e req)
             @ snd (cache_get e (cacheKey cLat cLon (requested_size js req) (requested_grid js req)))
             @ snd (fetch_elevations (elevation e)
                      (generate_grid js cLat cLon (requested_size js req) (requested_grid js req))) \<rparr>"
  | (Computed) cLat cLon nm result where
      "validate (fst (resolve js e req)) = Next (cLat, cLon, nm)"
      "fst (cache_get e (cacheKey cLat cLon (requested_size js req) (requested_grid js req))) = None"
      "fst (compute js e (cLat, cLon, nm) (requested_size js req) (requested_grid js req)) = Inr result"
      "terrain js e req =
         \<lparr> reply = ok_response result False,
           store = fst (cache_put e (cacheKey cLat cLon (requested_size js req) (requested_grid js req)) result),
           trace = snd (resolve js e req)
             @ snd (cache_get e (cacheKey cLat cLon (requested_size js req) (requested_grid js req)))
             @ snd (fetch_elevations (elevation e)
                      (generate_grid js cLat cLon (requested_size js req) (requested_grid js req)))
             @ snd (cache_put e (cacheKey cLat cLon (requested_size js req) (requested_grid js req)) result) \<rparr>"
proof (cases "validate (fst (resolve js e req))")
  case (Return r)
  then show ?thesis by (intro Returned [of r]) (simp_all add: terrain_unfold)
next
  case (Throw err)
  then show ?thesis by (intro Thrown [of err]) (simp_all add: terrain_unfold)
next
  case (Next c)
  obtain cLat cLon nm where c: "c = (cLat, cLon, nm)" by (cases c) auto
  let ?key = "cacheKey cLat cLon (requested_size js req) (requested_grid js req)"
  show ?thesis
  proof (cases "fst (cache_get e ?key)")
    case (Some r)
    with Next c show ?thesis
      by (intro Hit [of cLat cLon nm r]) (simp_all add: terrain_unfold serve_hit)
  next
    case None
    show ?thesis
    proof (cases "fst (compute js e (cLat, cLon, nm) (requested_size js req) (requested_grid js req))")
      case (Inl err)
      with Next c None show ?thesis
        by (intro Failed [of cLat cLon nm err]) (simp_all add: terrain_unfold serve_failed compute_trace)
    next
      case (Inr result)
      with Next c None show ?thesis
        by (intro Computed [of cLat cLon nm result])
           (simp_all add: terrain_unfold serve_computed compute_trace)
    qed
  qed
qed

lemma geocoded_Return: "geocoded js g = Return r \<Longrightarrow> r = not_found"
  by (cases "(js, g)" rule: geocoded.cases) simp_all

lemma resolve_Return:
  "fst (resolve js e req) = Return r \<Longrightarrow> r = not_found \<or> r = missing_params"
  by (auto simp: resolve_def explicit_coordinates_def Let_def
      split: option.splits if_splits dest: geocoded_Return)

lemma validated_Return:
  "validate (fst (resolve js e req)) = Return r \<Longrightarrow>
     r = not_found \<or> r = missing_params \<or> r = invalid_coordinates"
  using validate_Return [of "fst (resolve js e req)" r] resolve_Return [of js e req r] by blast

lemma early_responses [simp]:
  "status not_found = 404" "status missing_params = 400" "status invalid_coordinates = 400"
  "body not_found = ErrorBody ''Location not found'' None"
  "body missing_params = ErrorBody ''Provide ?q=location or ?lat=X&lon=Y'' None"
  "body invalid_coordinates = ErrorBody ''Invalid coordinates'' None"
  by (simp_all add: not_found_def missing_params_def invalid_coordinates_def)

lemma ok_response_simps [simp]:
  "status (ok_response r c) = 200" "body (ok_response r c) = TerrainBody r c"
  by (simp_all add: ok_response_def)

lemma error_response_status [simp]: "status (error_response err) = 500"
  by (cases err) (simp add: error_response_def)

lemma ok_not_error [simp]:
  "ok_response r c \<noteq> error_response err" "error_response err \<noteq> ok_response r c"
proof -
  have "status (ok_response r c) \<noteq> status (error_response err)" by simp
  then show "ok_response r c \<noteq> error_response err" "error_response err \<noteq> ok_response r c"
    by metis+
qed

text \<open>An answer computed by the pipeline, with all that led to it.\<close>

lemma computed_reply:
  assumes "reply (terrain js e req) = ok_response r False"
  obtains cLat cLon nm samples lo hi where
    "validate (fst (resolve js e req)) = Next (cLat, cLon, nm)"
    "fst (cache_get e (cacheKey cLat cLon (requested_size js req) (requested_grid js req))) = None"
    "fst (fetch_elevations (elevation e)
            (generate_grid js cLat cLon (requested_size js req) (requested_grid js req))) = Inr samples"
    "aggregate samples = Inr (lo, hi)"
    "r = \<lparr> name = nm, center = (cLat, cLon), elevations = samples,
            minElev = lo, maxElev = hi, grid = requested_grid js req \<rparr>"
    "store (terrain js e req) =
       fst (cache_put e (cacheKey cLat cLon (requested_size js req) (requested_grid js req)) r)"
    "trace (terrain js e req) =
       snd (resolve js e req)
         @ snd (cache_get e (cacheKey cLat cLon (requested_size js req) (requested_grid js req)))
         @ snd (fetch_elevations (elevation e)
                  (generate_grid js cLat cLon (requested_size js req) (requested_grid js req)))
         @ snd (cache_put e (cacheKey cLat cLon (requested_size js req) (requested_grid js req)) r)"
proof (cases js e req rule: terrain_cases)
  case (Returned r')
  with assms validated_Return [OF Returned(1)] show ?thesis
    by (auto simp: ok_response_def not_found_def missing_params_def invalid_coordinates_def)
next
  case (Thrown err)
  with assms show ?thesis by simp
next
  case (Hit cLat cLon nm r')
  with assms show ?thesis by (simp add: ok_response_def)
next
  case (Failed cLat cLon nm err)
  with assms show ?thesis by simp
next
  case (Computed cLat cLon nm result)
  with assms have "result = r" by (simp add: ok_response_def)
  with Computed compute_succeeded [OF Computed(3)] that show ?thesis
    by auto
qed

lemma finite_valid_numbers [simp]: "finite {x. Elev x \<in> set samples}"
  using set_valid_numbers [of samples, symmetric] by (metis List.finite_set)


lemma map_const_4: "length xs = 4 \<Longrightarrow> map (\<lambda>l. c) xs = [c, c, c, c]"
  by (simp add: map_replicate_const eval_nat_numeral)

lemma grid2_single_batch:
  "chunks BATCH_SIZE (generate_grid js cLat cLon s 2) = [generate_grid js cLat cLon s 2]"
  unfolding BATCH_SIZE_def by (rule chunks_single) (simp_all add: length_generate_grid)

lemma cold_run:
  "terrain plain cold query_grid2 =
     \<lparr> reply = ok_response somewhere False,
       store = Some [cacheKey (Finite 10) (Finite 20) (Finite 10) 2 \<mapsto> somewhere],
       trace =
         [GeoCall ''x'' (one_place ''x''),
          CacheGet (cacheKey (Finite 10) (Finite 20) (Finite 10) 2) None,
          ElevCall (generate_grid plain (Finite 10) (Finite 20) (Finite 10) 2)
            (flat_api 0 (generate_grid plain (Finite 10) (Finite 20) (Finite 10) 2)),
          CachePut (cacheKey (Finite 10) (Finite 20) (Finite 10) 2) somewhere expirationTtl] \<rparr>"
  by (simp add: terrain_unfold resolve_def parse_defs query_grid2_def origin_grid2_def
        no_params_def cold_def one_place_def serve_def cache_get_def cache_put_def Let_def
        compute_def fetch_elevations_eq grid2_single_batch flat_api_def map_const_4
        length_generate_grid aggregate_def valid_def math_min_def math_max_def somewhere_def
        ok_response_def)


lemma resolve_cong: "geocode e' = geocode e \<Longrightarrow> resolve js e' req = resolve js e req"
  by (simp add: resolve_def split: option.splits)

lemma hit_reply:
  assumes "validate (fst (resolve js e req)) = Next (cLat, cLon, nm)"
    and "CACHE e = Some kv"
    and "kv (cacheKey cLat cLon (requested_size js req) (requested_grid js req)) = Some r"
  shows "terrain js e req =
           \<lparr> reply = ok_response r True, store = CACHE e,
             trace = snd (resolve js e req)
               @ [CacheGet (cacheKey cLat cLon (requested_size js req) (requested_grid js req)) (Some r)] \<rparr>"
  using assms by (simp add: terrain_unfold serve_hit cache_get_def)

lemma warm_run:
  "terrain plain warm query_grid2 =
     \<lparr> reply = ok_response somewhere True, store = CACHE warm,
       trace =
         [GeoCall ''x'' (one_place ''x''),
          CacheGet (cacheKey (Finite 10) (Finite 20) (Finite 10) 2) (Some somewhere)] \<rparr>"
  by (simp add: terrain_unfold resolve_def parse_defs query_grid2_def origin_grid2_def
        no_params_def warm_def one_place_def serve_def cache_get_def Let_def)

lemma computed_from_samples:
  assumes "validate (fst (resolve js e req)) = Next (cLat, cLon, nm)"
    and "fst (cache_get e (cacheKey cLat cLon (requested_size js req) (requested_grid js req))) = None"
    and "fst (fetch_elevations (elevation e)
                (generate_grid js cLat cLon (requested_size js req) (requested_grid js req))) = Inr samples"
  shows "if \<exists>x. Elev x \<in> set samples
         then reply (terrain js e req) =
                ok_response
                  \<lparr> name = nm, center = (cLat, cLon), elevations = samples,
                    minElev = Finite (Min {x. Elev x \<in> set samples}),
                    maxElev = Finite (Max {x. Elev x \<in> set samples}),
                    grid = requested_grid js req \<rparr> False
         else reply (terrain js e req) =
                error_response (Error ''No valid elevation data for this location'') \<and>
              store (terrain js e req) = CACHE e"
proof (cases "\<exists>x. Elev x \<in> set samples")
  case True
  with assms(3) have "fst (compute js e (cLat, cLon, nm) (requested_size js req) (requested_grid js req)) =
      Inr \<lparr> name = nm, center = (cLat, cLon), elevations = samples,
            minElev = Finite (Min {x. Elev x \<in> set samples}),
            maxElev = Finite (Max {x. Elev x \<in> set samples}),
            grid = requested_grid js req \<rparr>"
    by (simp add: compute_result aggregate_eq)
  with assms(1,2) True show ?thesis
    by (simp add: terrain_unfold serve_computed)
next
  case False
  with assms(3) have "fst (compute js e (cLat, cLon, nm) (requested_size js req) (requested_grid js req)) =
      Inl (Error ''No valid elevation data for this location'')"
    by (simp add: compute_result aggregate_eq)
  with assms(1,2) False show ?thesis
    by (simp add: terrain_unfold serve_failed)
qed

lemma query_grid2_resolved:
  "geocode e = one_place \<Longrightarrow>
     validate (fst (resolve plain e query_grid2)) =
       Next (Finite 10, Finite 20, DisplayName (Some ''Somewhere'')) \<and>
     requested_size plain query_grid2 = Finite 10 \<and> requested_grid plain query_grid2 = 2"
  by (simp add: resolve_def parse_defs query_grid2_def origin_grid2_def no_params_def
        one_place_def)

lemma gappy_numbers:
  "{x. Elev x \<in> set [Elev 3, Null, Undefined, Elev 7]} = {3, 7}"
  by auto

lemma resolve_query:
  "param_q req = Some q \<Longrightarrow> q \<noteq> [] \<Longrightarrow>
     resolve js e req = (geocoded js (geocode e q), [GeoCall q (geocode e q)])"
  by (simp add: resolve_def)

lemma validate_Next:
  "validate s = Next c \<Longrightarrow> s = Next c"
  by (cases s rule: validate.cases) (auto split: if_splits)

lemma resolve_ignores_area:
  "resolve js e (req \<lparr> param_size := s, param_grid := g \<rparr>) = resolve js e req"
  by (simp add: resolve_def explicit_coordinates_def split: option.splits)

lemma status_400_iff:
  "status (reply (terrain js e req)) = 400 \<longleftrightarrow>
     validate (fst (resolve js e req)) = Return missing_params \<or>
     validate (fst (resolve js e req)) = Return invalid_coordinates"
proof (cases js e req rule: terrain_cases)
  case (Returned r)
  from validated_Return [OF Returned(1)]
  consider "r = not_found" | "r = missing_params" | "r = invalid_coordinates" by blast
  then show ?thesis
  proof cases
    case 1
    have "not_found \<noteq> missing_params" "not_found \<noteq> invalid_coordinates"
      by (simp_all add: not_found_def missing_params_def invalid_coordinates_def)
    with 1 Returned show ?thesis by simp
  next
    case 2
    with Returned show ?thesis by simp
  next
    case 3
    with Returned show ?thesis by simp
  qed
next
  case (Thrown err)
  then show ?thesis by simp
next
  case (Hit cLat cLon nm r)
  then show ?thesis by simp
next
  case (Failed cLat cLon nm err)
  then show ?thesis by simp
next
  case (Computed cLat cLon nm result)
  then show ?thesis by simp
qed

lemma resolve_explicit:
  "\<not> truthy (param_q req) \<Longrightarrow> resolve js e req = (explicit_coordinates js req, [])"
  by (simp add: resolve_def truthy_def split: option.splits)

lemma failed_reply_fails:
  "rejected r \<or> non_success r \<or> malformed r \<Longrightarrow> \<exists>err. batch_elevations r = Inl err"
  by (cases r rule: malformed.cases) auto

lemma failed_geocoding_throws:
  "rejected g \<or> non_success g \<or> geo_malformed g \<Longrightarrow> \<exists>err. geocoded js g = Throw err"
  by (cases "(js, g)" rule: geocoded.cases) auto

lemma reply_shape:
  "status (reply (terrain js e req)) \<in> {200, 400, 404, 500} \<and>
   (status (reply (terrain js e req)) \<noteq> 200 \<longrightarrow>
      (\<exists>m d. body (reply (terrain js e req)) = ErrorBody m d))"
proof (cases js e req rule: terrain_cases)
  case (Returned r)
  from validated_Return [OF Returned(1)]
  consider "r = not_found" | "r = missing_params" | "r = invalid_coordinates" by blast
  then show ?thesis
    using Returned by cases simp_all
next
  case (Thrown err)
  with error_response_shape [of err] show ?thesis by auto
next
  case (Hit cLat cLon nm r)
  then show ?thesis by simp
next
  case (Failed cLat cLon nm err)
  with error_response_shape [of err] show ?thesis by auto
next
  case (Computed cLat cLon nm result)
  then show ?thesis by simp
qed

lemma calls_append: "calls (xs @ ys) = calls xs @ calls ys"
  by (induction xs rule: calls.induct) simp_all

lemma calls_resolve [simp]: "calls (snd (resolve js e req)) = []"
  by (simp add: resolve_events split: option.splits)

lemma calls_lookup [simp]: "calls (snd (cache_get e k)) = []"
  by (simp add: cache_get_def split: option.splits)

lemma calls_put [simp]: "calls (snd (cache_put e k r)) = []"
  by (simp add: cache_put_def split: option.splits)

text \<open>Resolved coordinates lead to the lookup under the key of the request's values.\<close>

lemma lookup_under_key:
  assumes v: "validate (fst (resolve js e req)) = Next (cLat, cLon, nm)"
  shows "\<exists>rest. trace (terrain js e req) =
           snd (resolve js e req)
             @ snd (cache_get e (cacheKey cLat cLon (requested_size js req) (requested_grid js req)))
             @ rest"
proof (cases "fst (cache_get e (cacheKey cLat cLon (requested_size js req) (requested_grid js req)))")
  case (Some r)
  with v show ?thesis
    by (simp add: terrain_unfold serve_hit)
next
  case None
  show ?thesis
  proof (cases "fst (compute js e (cLat, cLon, nm) (requested_size js req) (requested_grid js req))")
    case (Inl err)
    with v None show ?thesis
      by (simp add: terrain_unfold serve_failed)
  next
    case (Inr result)
    with v None show ?thesis
      by (simp add: terrain_unfold serve_computed)
  qed
qed

text \<open>After a miss the request runs the pipeline, and a failure is one of the pipeline.\<close>

lemma pipeline_on_miss:
  assumes v: "validate (fst (resolve js e req)) = Next (cLat, cLon, nm)"
    and miss: "fst (cache_get e (cacheKey cLat cLon (requested_size js req) (requested_grid js req))) = None"
  shows "calls (trace (terrain js e req)) =
           calls (snd (fetch_elevations (elevation e)
                    (generate_grid js cLat cLon (requested_size js req) (requested_grid js req))))"
    and "status (reply (terrain js e req)) = 500 \<longrightarrow>
           (\<exists>err. reply (terrain js e req) = error_response err \<and>
              (fst (fetch_elevations (elevation e)
                      (generate_grid js cLat cLon (requested_size js req) (requested_grid js req))) = Inl err \<or>
               err = Error ''No valid elevation data for this location''))"
proof -
  let ?s = "requested_size js req" and ?n = "requested_grid js req"
  let ?fetch = "fetch_elevations (elevation e) (generate_grid js cLat cLon ?s ?n)"
  have both: "calls (trace (terrain js e req)) = calls (snd ?fetch) \<and>
    (status (reply (terrain js e req)) = 500 \<longrightarrow>
       (\<exists>err. reply (terrain js e req) = error_response err \<and>
          (fst ?fetch = Inl err \<or> err = Error ''No valid elevation data for this location'')))"
  proof (cases "fst (compute js e (cLat, cLon, nm) ?s ?n)")
    case (Inl err)
    from compute_failed [OF Inl]
    have "fst ?fetch = Inl err \<or> err = Error ''No valid elevation data for this location''"
      by (auto simp: aggregate_def Let_def split: if_splits)
    with v miss Inl show ?thesis
      by (auto simp: terrain_unfold serve_failed compute_trace calls_append)
  next
    case (Inr result)
    with v miss show ?thesis
      by (simp add: terrain_unfold serve_computed compute_trace calls_append)
  qed
  from both show "calls (trace (terrain js e req)) = calls (snd ?fetch)" by simp
  from both show "status (reply (terrain js e req)) = 500 \<longrightarrow>
       (\<exists>err. reply (terrain js e req) = error_response err \<and>
          (fst ?fetch = Inl err \<or> err = Error ''No valid elevation data for this location''))"
    by simp
qed

section \<open>Claims\<close>

subsection \<open>Grid generator\<close>

text \<open>
  C1 (as amended). For every engine, center, size and integer grid of at least 2, the
  generator returns exactly grid * grid pairs in row-major order, row \<open>i\<close> outer and
  column \<open>j\<close> inner: the pair at index \<open>i * grid + j\<close> holds the \<open>toFixed(6)\<close> texts of
  the center plus the latitude offset and of the center plus the longitude offset. The
  offsets are \<open>(i/(grid-1) - 0.5) * size / 111\<close> and
  \<open>(j/(grid-1) - 0.5) * size / (111 * cos(centerLat * PI / 180))\<close> as binary64
  arithmetic evaluates them, every operation rounded, and so are the two sums. A text
  denotes its sum to within half a unit of the sixth decimal, not the sum itself.
\<close>

theorem generate_grid_row_major_rounded:
  "2 \<le> g \<Longrightarrow>
     length (generate_grid js cLat cLon sizeKm g) = nat (g * g) \<and>
     (\<forall>i j. 0 \<le> i \<and> i < g \<and> 0 \<le> j \<and> j < g \<longrightarrow>
        generate_grid js cLat cLon sizeKm g ! nat (i * g + j) =
          \<lparr> lat = toFixed 6 (js_add cLat (latOffset sizeKm g i)),
            lon = toFixed 6 (js_add cLon (lonOffset js cLat sizeKm g j)) \<rparr>) \<and>
     latOffset sizeKm g r =
       js_div
         (js_mul
            (js_sub (js_div (Finite (of_int r)) (js_sub (Finite (of_int g)) (Finite 1)))
               (Finite (1 / 2)))
            sizeKm)
         (Finite 111) \<and>
     lonOffset js cLat sizeKm g c =
       js_div
         (js_mul
            (js_sub (js_div (Finite (of_int c)) (js_sub (Finite (of_int g)) (Finite 1)))
               (Finite (1 / 2)))
            sizeKm)
         (js_mul (Finite 111)
            (js_cos js (js_div (js_mul cLat (Finite Math_PI)) (Finite 180)))) \<and>
     (\<forall>x. \<bar>x\<bar> < 10 ^ 21 \<longrightarrow>
        (\<exists>v. numtext_value (toFixed 6 (Finite x)) = Some v \<and> \<bar>v - x\<bar> \<le> 1 / (2 * 10 ^ 6)))"
proof (intro conjI allI impI)
  assume g: "2 \<le> g"
  then show "length (generate_grid js cLat cLon sizeKm g) = nat (g * g)"
    by (simp add: length_generate_grid nat_mult_distrib)
next
  fix i j
  assume g: "2 \<le> g" and ij: "0 \<le> i \<and> i < g \<and> 0 \<le> j \<and> j < g"
  then have "nat (i * g + j) = nat i * nat g + nat j"
    by (simp add: nat_add_distrib nat_mult_distrib)
  with ij show "generate_grid js cLat cLon sizeKm g ! nat (i * g + j) =
          \<lparr> lat = toFixed 6 (js_add cLat (latOffset sizeKm g i)),
            lon = toFixed 6 (js_add cLon (lonOffset js cLat sizeKm g j)) \<rparr>"
    by (simp add: nth_generate_grid grid_point_def)
next
  show "latOffset sizeKm g r =
       js_div
         (js_mul
            (js_sub (js_div (Finite (of_int r)) (js_sub (Finite (of_int g)) (Finite 1)))
               (Finite (1 / 2)))
            sizeKm)
         (Finite 111)"
    by (simp only: latOffset_def offset_fraction_def kmPerDegLat_def)
  show "lonOffset js cLat sizeKm g c =
       js_div
         (js_mul
            (js_sub (js_div (Finite (of_int c)) (js_sub (Finite (of_int g)) (Finite 1)))
               (Finite (1 / 2)))
            sizeKm)
         (js_mul (Finite 111)
            (js_cos js (js_div (js_mul cLat (Finite Math_PI)) (Finite 180))))"
    by (simp only: lonOffset_def offset_fraction_def kmPerDegLon_def)
next
  fix x :: real
  assume "\<bar>x\<bar> < 10 ^ 21"
  then show "\<exists>v. numtext_value (toFixed 6 (Finite x)) = Some v \<and> \<bar>v - x\<bar> \<le> 1 / (2 * 10 ^ 6)"
    by (rule toFixed_close)
qed

text \<open>
  The theorem at grid 3 around the origin, size 10: nine pairs, the pair of row 2,
  column 1, and the text of its latitude against the sum it stands for.
\<close>

theorem generate_grid_row_major_rounded_witness:
  "length (generate_grid plain (Finite 0) (Finite 0) (Finite 10) 3) = 9 \<and>
   generate_grid plain (Finite 0) (Finite 0) (Finite 10) 3 ! 7 =
     \<lparr> lat = TextFixed False 45045 6, lon = TextFixed False 0 6 \<rparr> \<and>
   (\<exists>v. numtext_value (TextFixed False 45045 6) = Some v \<and>
        \<bar>v - 6491675138552066 / 2 ^ 57\<bar> \<le> 1 / (2 * 10 ^ 6))"
proof -
  have g: "(2::int) \<le> 3" by simp
  note t = generate_grid_row_major_rounded [OF g, of plain "Finite 0" "Finite 0" "Finite 10"]
  from t have len: "length (generate_grid plain (Finite 0) (Finite 0) (Finite 10) 3) = 9"
    by simp
  have ij: "(0::int) \<le> 2 \<and> (2::int) < 3 \<and> (0::int) \<le> 1 \<and> (1::int) < 3" by simp
  note at = t [THEN conjunct2, THEN conjunct1, THEN spec, THEN spec, THEN mp, OF ij]
  from at have pair: "generate_grid plain (Finite 0) (Finite 0) (Finite 10) 3 ! 7 =
      \<lparr> lat = TextFixed False 45045 6, lon = TextFixed False 0 6 \<rparr>"
    by (simp add: sum_3_2 lon_3_1)
  have small: "\<bar>6491675138552066 / 2 ^ 57 :: real\<bar> < 10 ^ 21" by simp
  note near = t [THEN conjunct2, THEN conjunct2, THEN conjunct2, THEN conjunct2, THEN spec,
    THEN mp, OF small]
  have "toFixed 6 (Finite (6491675138552066 / 2 ^ 57)) = TextFixed False 45045 6"
    by simp
  with near have "\<exists>v. numtext_value (TextFixed False 45045 6) = Some v \<and>
        \<bar>v - 6491675138552066 / 2 ^ 57\<bar> \<le> 1 / (2 * 10 ^ 6)"
    by simp
  with len pair show ?thesis by blast
qed

text \<open>
  C1 as stated fails: for \<open>?lat=0&lon=0&grid=3\<close> (size 10) the latitude of row 2,
  column 1 is the text \<open>0.045045\<close>; the center plus the offset is \<open>5/111\<close>, and in
  binary64 arithmetic it is \<open>6491675138552066 / 2^57\<close>.
\<close>

theorem grid_point_exact_counterexample:
  "lat (generate_grid plain (Finite 0) (Finite 0) (Finite 10) 3 ! nat (2 * 3 + 1)) =
     TextFixed False 45045 6 \<and>
   numtext_value (TextFixed False 45045 6) = Some (45045 / 10 ^ 6) \<and>
   (45045 / 10 ^ 6 :: real) \<noteq> 0 + (2 / (3 - 1) - 1 / 2) * 10 / 111 \<and>
   js_add (Finite 0) (latOffset (Finite 10) 3 2) = Finite (6491675138552066 / 2 ^ 57) \<and>
   (45045 / 10 ^ 6 :: real) \<noteq> 6491675138552066 / 2 ^ 57"
proof -
  have "generate_grid plain (Finite 0) (Finite 0) (Finite 10) 3 ! (nat 2 * nat 3 + nat 1) =
          grid_point plain (Finite 0) (Finite 0) (Finite 10) 3 2 1"
    by (rule nth_generate_grid) simp_all
  then have "lat (generate_grid plain (Finite 0) (Finite 0) (Finite 10) 3 ! nat (2 * 3 + 1)) =
     TextFixed False 45045 6"
    by (simp add: grid_point_def sum_3_2)
  then show ?thesis
    by (simp add: sum_3_2)
qed




subsection \<open>Elevation fetcher\<close>

text \<open>
  C2. For every coordinate sequence the fetcher cuts the input into contiguous batches of
  at most 100 coordinates that concatenate to the input; it behaves as the sequential
  plan does: one call per batch in batch order, each after the reply to the one before,
  a fixed delay between consecutive calls and none after the last (calls at the even
  positions of the plan, delays at the odd ones, \<open>2 * batches - 1\<close> events); the events
  of a fetch are an initial part of that plan, all of it when no call fails, and then
  the result is the concatenation of the batch outputs in batch order. A grid of 40 gives
  1600 coordinates and 16 batches, so 16 calls and 15 delays.
\<close>

theorem fetcher_batches_sequentially:
  "(let batches = chunks BATCH_SIZE locations; plan = schedule api 0 batches in
      concat batches = locations \<and>
      (\<forall>b \<in> set batches. b \<noteq> [] \<and> length b \<le> 100) \<and>
      fetch_elevations api locations = sequential_batches api 0 batches \<and>
      snd (fetch_elevations api locations) =
        take (length (snd (fetch_elevations api locations))) plan \<and>
      ((\<forall>k < length batches. batch_elevations (api k (batches ! k)) = Inr (outs k)) \<longrightarrow>
         fetch_elevations api locations =
           (Inr (concat (map outs [0..<length batches])), plan)) \<and>
      calls plan = batches \<and>
      length plan = 2 * length batches - 1 \<and>
      length (filter is_delay plan) = length batches - 1 \<and>
      (\<forall>i < length plan. if even i then is_call (plan ! i) else plan ! i = Delay 2000)) \<and>
   length (chunks BATCH_SIZE (generate_grid js cLat cLon sizeKm 40)) = 16"
proof -
  have pos: "0 < BATCH_SIZE" by (simp add: BATCH_SIZE_def)
  have bounds: "\<forall>b \<in> set (chunks BATCH_SIZE locations). b \<noteq> [] \<and> length b \<le> 100"
    using chunks_bounds [OF pos] by (auto simp: BATCH_SIZE_def)
  have initial: "snd (fetch_elevations api locations) =
      take (length (snd (fetch_elevations api locations)))
        (schedule api 0 (chunks BATCH_SIZE locations))"
    unfolding fetch_elevations_eq by (rule sequential_trace_initial)
  have all_ok: "fetch_elevations api locations =
      (Inr (concat (map outs [0..<length (chunks BATCH_SIZE locations)])),
       schedule api 0 (chunks BATCH_SIZE locations))"
    if "\<forall>k < length (chunks BATCH_SIZE locations).
          batch_elevations (api k (chunks BATCH_SIZE locations ! k)) = Inr (outs k)"
    unfolding fetch_elevations_eq
    using sequential_all_ok [of "chunks BATCH_SIZE locations" api 0 outs] that by simp
  have alt: "\<forall>i < length (schedule api 0 (chunks BATCH_SIZE locations)).
      if even i then is_call (schedule api 0 (chunks BATCH_SIZE locations) ! i)
      else schedule api 0 (chunks BATCH_SIZE locations) ! i = Delay 2000"
    using schedule_alternates by blast
  show ?thesis
    unfolding Let_def
  proof (intro conjI impI)
    show "concat (chunks BATCH_SIZE locations) = locations"
      by (rule concat_chunks [OF pos])
    show "fetch_elevations api locations = sequential_batches api 0 (chunks BATCH_SIZE locations)"
      by (rule fetch_elevations_eq)
    show "calls (schedule api 0 (chunks BATCH_SIZE locations)) = chunks BATCH_SIZE locations"
      by (rule calls_schedule)
    show "length (schedule api 0 (chunks BATCH_SIZE locations)) =
            2 * length (chunks BATCH_SIZE locations) - 1"
      by (rule length_schedule)
    show "length (filter is_delay (schedule api 0 (chunks BATCH_SIZE locations))) =
            length (chunks BATCH_SIZE locations) - 1"
      by (rule delays_schedule)
    show "length (chunks BATCH_SIZE (generate_grid js cLat cLon sizeKm 40)) = 16"
      by (rule chunks_grid_40)
  qed (use bounds initial all_ok alt in blast)+
qed

text \<open>The theorem on 101 coordinates and a service that answers every call: two calls, one delay between them.\<close>

theorem fetcher_batches_sequentially_witness:
  "fetch_elevations flat_api (replicate 101 origin) =
     (Inr (replicate 101 (Elev 5)),
      [ElevCall (replicate 100 origin) (flat_api 0 (replicate 100 origin)),
       Delay 2000,
       ElevCall [origin] (flat_api 1 [origin])])"
proof -
  have ch: "chunks BATCH_SIZE (replicate 101 origin) = [replicate 100 origin, [origin]]"
    by (simp add: chunks_step BATCH_SIZE_def)
  let ?outs = "\<lambda>k. map (\<lambda>l. Elev 5) ([replicate 100 origin, [origin]] ! k)"
  have ok: "\<forall>k < length [replicate 100 origin, [origin]].
              batch_elevations (flat_api k ([replicate 100 origin, [origin]] ! k)) = Inr (?outs k)"
    by (simp add: flat_api_def)
  from fetcher_batches_sequentially [of "replicate 101 origin" flat_api ?outs]
  have "fetch_elevations flat_api (replicate 101 origin) =
          (Inr (concat (map ?outs [0..<length [replicate 100 origin, [origin]]])),
           schedule flat_api 0 [replicate 100 origin, [origin]])"
    unfolding Let_def ch using ok by blast
  moreover have "replicate (100 + 1) (Elev 5) = replicate 100 (Elev 5) @ replicate 1 (Elev 5)"
    by (rule replicate_add)
  then have "replicate 100 (Elev 5) @ [Elev 5] = replicate 101 (Elev 5)"
    by simp
  ultimately show ?thesis
    by (simp add: upt_rec)
qed

subsection \<open>Failure of an elevation call\<close>

text \<open>
  C4. For every request in which some elevation batch call returns a non-success status or
  a malformed response, the whole request fails with status 500 and an error body (no
  elevations are returned), the store is left as it was and no cache write happens, the
  failing call is the last thing the request does (nothing is retried and no further
  batch is asked for), and every call before it had succeeded.
\<close>

theorem failed_batch_aborts_request:
  "ElevCall b r \<in> set (trace (terrain js e req)) \<Longrightarrow> non_success r \<or> malformed r \<Longrightarrow>
     status (reply (terrain js e req)) = 500 \<and>
     (\<exists>m d. body (reply (terrain js e req)) = ErrorBody m d) \<and>
     store (terrain js e req) = CACHE e \<and>
     \<not> list_ex is_put (trace (terrain js e req)) \<and>
     last (trace (terrain js e req)) = ElevCall b r \<and>
     (\<forall>b' r'. ElevCall b' r' \<in> set (butlast (trace (terrain js e req))) \<longrightarrow>
        (\<exists>out. batch_elevations r' = Inr out))"
proof -
  assume call: "ElevCall b r \<in> set (trace (terrain js e req))"
    and "non_success r \<or> malformed r"
  then obtain err where "batch_elevations r = Inl err"
    using bad_reply_fails by blast
  from failed_call_ends_request [OF call this] error_response_shape [of err]
  show ?thesis by auto
qed

text \<open>The theorem on 121 coordinates with a service that refuses the second call with status 429.\<close>

theorem failed_batch_aborts_request_witness:
  "status (reply (terrain plain limited origin_grid11)) = 500 \<and>
   store (terrain plain limited origin_grid11) = Some Map.empty \<and>
   last (trace (terrain plain limited origin_grid11)) =
     ElevCall (drop 100 (generate_grid plain (Finite 0) (Finite 0) (Finite 10) 11))
       (NotOk 429 ''slow down'')"
proof -
  have "ElevCall (drop 100 (generate_grid plain (Finite 0) (Finite 0) (Finite 10) 11))
          (NotOk 429 ''slow down'') \<in> set (trace (terrain plain limited origin_grid11))"
    by (simp add: limited_trace)
  moreover have "non_success (NotOk 429 ''slow down'' :: elev_json upstream) \<or>
                 malformed (NotOk 429 ''slow down'')"
    by simp
  ultimately show ?thesis
    using failed_batch_aborts_request
      [of "drop 100 (generate_grid plain (Finite 0) (Finite 0) (Finite 10) 11)"
          "NotOk 429 ''slow down''" plain limited origin_grid11]
    by (simp add: limited_def)
qed

subsection \<open>The computed result\<close>




subsection \<open>Cache hit\<close>

text \<open>
  C5 (as amended). The cache key is built from the resolved coordinates, so the lookup
  comes after coordinate resolution: for a request with a text query the geocoder is
  called first. For every request whose coordinates resolve and whose key is then present
  in the store, the answer is the stored result with the \<open>cached\<close> flag added, the store
  is unchanged, and the events are those of the resolution followed by the lookup alone:
  neither the grid generator nor the elevation fetcher runs and nothing is written. In
  particular, when a request was answered by computing a result and storing it, the same
  request against that store and the same geocoder is answered with the identical result
  plus the flag, without any elevation call or write.
\<close>

theorem cache_hit_after_resolution:
  "(validate (fst (resolve js e req)) = Next (cLat, cLon, nm) \<and> CACHE e = Some kv \<and>
    kv (cacheKey cLat cLon (requested_size js req) (requested_grid js req)) = Some r \<longrightarrow>
      terrain js e req =
        \<lparr> reply = ok_response r True, store = CACHE e,
          trace = snd (resolve js e req)
            @ [CacheGet (cacheKey cLat cLon (requested_size js req) (requested_grid js req)) (Some r)] \<rparr> \<and>
      snd (resolve js e req) =
        (case param_q req of
           None \<Rightarrow> []
         | Some q \<Rightarrow> if q = [] then [] else [GeoCall q (geocode e q)])) \<and>
   (reply (terrain js e req) = ok_response r' False \<and> store (terrain js e req) = Some kv' \<and>
    geocode e' = geocode e \<and> CACHE e' = Some kv' \<longrightarrow>
      reply (terrain js e' req) = ok_response r' True \<and>
      store (terrain js e' req) = Some kv' \<and>
      filter is_call (trace (terrain js e' req)) = [] \<and>
      filter is_put (trace (terrain js e' req)) = [])"
proof (intro conjI impI)
  assume h: "validate (fst (resolve js e req)) = Next (cLat, cLon, nm) \<and> CACHE e = Some kv \<and>
    kv (cacheKey cLat cLon (requested_size js req) (requested_grid js req)) = Some r"
  then show "terrain js e req =
        \<lparr> reply = ok_response r True, store = CACHE e,
          trace = snd (resolve js e req)
            @ [CacheGet (cacheKey cLat cLon (requested_size js req) (requested_grid js req)) (Some r)] \<rparr>"
    using hit_reply [of js e req cLat cLon nm kv r] by blast
  show "snd (resolve js e req) =
        (case param_q req of
           None \<Rightarrow> []
         | Some q \<Rightarrow> if q = [] then [] else [GeoCall q (geocode e q)])"
    by (rule resolve_events)
next
  assume h: "reply (terrain js e req) = ok_response r' False \<and> store (terrain js e req) = Some kv' \<and>
    geocode e' = geocode e \<and> CACHE e' = Some kv'"
  then have first: "reply (terrain js e req) = ok_response r' False" by simp
  from first obtain cLat' cLon' nm' where
    v: "validate (fst (resolve js e req)) = Next (cLat', cLon', nm')" and
    st: "store (terrain js e req) =
           fst (cache_put e (cacheKey cLat' cLon' (requested_size js req) (requested_grid js req)) r')"
    by (rule computed_reply)
  let ?key = "cacheKey cLat' cLon' (requested_size js req) (requested_grid js req)"
  from h st have "kv' ?key = Some r'"
    by (auto simp: cache_put_def split: option.splits)
  moreover from h v have "validate (fst (resolve js e' req)) = Next (cLat', cLon', nm')"
    using resolve_cong [of e' e js req] by simp
  ultimately have run: "terrain js e' req =
      \<lparr> reply = ok_response r' True, store = CACHE e',
        trace = snd (resolve js e' req) @ [CacheGet ?key (Some r')] \<rparr>"
    using h hit_reply [of js e' req cLat' cLon' nm' kv' r'] by blast
  from run show "reply (terrain js e' req) = ok_response r' True" by simp
  from run h show "store (terrain js e' req) = Some kv'" by simp
  from run show "filter is_call (trace (terrain js e' req)) = []"
    by (simp add: resolve_events split: option.splits)
  from run show "filter is_put (trace (terrain js e' req)) = []"
    by (simp add: resolve_events split: option.splits)
qed

text \<open>The theorem on \<open>?q=x&lat=0&lon=0&grid=2\<close>: computed against an empty store, then repeated against the store it left.\<close>

theorem cache_hit_after_resolution_witness:
  "reply (terrain plain cold query_grid2) = ok_response somewhere False \<and>
   reply (terrain plain warm query_grid2) = ok_response somewhere True \<and>
   store (terrain plain warm query_grid2) = store (terrain plain cold query_grid2) \<and>
   filter is_call (trace (terrain plain warm query_grid2)) = []"
proof -
  have "reply (terrain plain cold query_grid2) = ok_response somewhere False \<and>
        store (terrain plain cold query_grid2) =
          Some [cacheKey (Finite 10) (Finite 20) (Finite 10) 2 \<mapsto> somewhere] \<and>
        geocode warm = geocode cold \<and>
        CACHE warm = Some [cacheKey (Finite 10) (Finite 20) (Finite 10) 2 \<mapsto> somewhere]"
    by (simp add: cold_run) (simp add: warm_def cold_def)
  with cache_hit_after_resolution
    [of plain cold query_grid2 "Finite 10" "Finite 20" "DisplayName (Some ''Somewhere'')" Map.empty
        somewhere somewhere "[cacheKey (Finite 10) (Finite 20) (Finite 10) 2 \<mapsto> somewhere]" warm]
  show ?thesis
    by (simp add: cold_run)
qed

text \<open>
  C5 as stated fails: on that cache hit the geocoder is called, and before the lookup.
\<close>

theorem geocoding_precedes_lookup_counterexample:
  "trace (terrain plain warm query_grid2) =
     [GeoCall ''x'' (one_place ''x''),
      CacheGet (cacheKey (Finite 10) (Finite 20) (Finite 10) 2) (Some somewhere)] \<and>
   reply (terrain plain warm query_grid2) = ok_response somewhere True"
  by (simp add: warm_run)

subsection \<open>Aggregator\<close>

text \<open>
  C6. A sample is valid exactly when it is a number (\<open>null\<close> and \<open>undefined\<close> are not).
  For every sample sequence the aggregator yields the minimum and the maximum over
  exactly the valid samples, and fails when there is none. In the handler, when the
  fetch has produced the samples, the result carries the whole sequence unchanged, the
  invalid samples at their positions, with these two statistics; and when no sample is
  valid the request fails with status 500 and nothing is stored.
\<close>

theorem aggregator_statistics:
  "(valid s \<longleftrightarrow> (\<exists>x. s = Elev x)) \<and>
   aggregate samples =
     (if \<exists>x. Elev x \<in> set samples
      then Inr (Finite (Min {x. Elev x \<in> set samples}), Finite (Max {x. Elev x \<in> set samples}))
      else Inl (Error ''No valid elevation data for this location'')) \<and>
   (validate (fst (resolve js e req)) = Next (cLat, cLon, nm) \<and>
    fst (cache_get e (cacheKey cLat cLon (requested_size js req) (requested_grid js req))) = None \<and>
    fst (fetch_elevations (elevation e)
           (generate_grid js cLat cLon (requested_size js req) (requested_grid js req))) = Inr samples \<longrightarrow>
      (if \<exists>x. Elev x \<in> set samples
       then reply (terrain js e req) =
              ok_response
                \<lparr> name = nm, center = (cLat, cLon), elevations = samples,
                  minElev = Finite (Min {x. Elev x \<in> set samples}),
                  maxElev = Finite (Max {x. Elev x \<in> set samples}),
                  grid = requested_grid js req \<rparr> False
       else reply (terrain js e req) =
              error_response (Error ''No valid elevation data for this location'') \<and>
            status (reply (terrain js e req)) = 500 \<and>
            store (terrain js e req) = CACHE e))"
proof (intro conjI impI)
  show "valid s \<longleftrightarrow> (\<exists>x. s = Elev x)" by (rule valid_iff)
  show "aggregate samples =
     (if \<exists>x. Elev x \<in> set samples
      then Inr (Finite (Min {x. Elev x \<in> set samples}), Finite (Max {x. Elev x \<in> set samples}))
      else Inl (Error ''No valid elevation data for this location''))"
    by (rule aggregate_eq)
next
  assume "validate (fst (resolve js e req)) = Next (cLat, cLon, nm) \<and>
    fst (cache_get e (cacheKey cLat cLon (requested_size js req) (requested_grid js req))) = None \<and>
    fst (fetch_elevations (elevation e)
           (generate_grid js cLat cLon (requested_size js req) (requested_grid js req))) = Inr samples"
  then have "validate (fst (resolve js e req)) = Next (cLat, cLon, nm)"
    "fst (cache_get e (cacheKey cLat cLon (requested_size js req) (requested_grid js req))) = None"
    "fst (fetch_elevations (elevation e)
           (generate_grid js cLat cLon (requested_size js req) (requested_grid js req))) = Inr samples"
    by simp_all
  from computed_from_samples [OF this]
  show "if \<exists>x. Elev x \<in> set samples
       then reply (terrain js e req) =
              ok_response
                \<lparr> name = nm, center = (cLat, cLon), elevations = samples,
                  minElev = Finite (Min {x. Elev x \<in> set samples}),
                  maxElev = Finite (Max {x. Elev x \<in> set samples}),
                  grid = requested_grid js req \<rparr> False
       else reply (terrain js e req) =
              error_response (Error ''No valid elevation data for this location'') \<and>
            status (reply (terrain js e req)) = 500 \<and>
            store (terrain js e req) = CACHE e"
    by (auto split: if_splits)
qed

text \<open>
  The theorem on \<open>?q=x&lat=0&lon=0&grid=2\<close> with a service that returns 3, \<open>null\<close>, a
  result without elevation, and 7; and with one that returns \<open>null\<close> four times.
\<close>

theorem aggregator_statistics_witness:
  "reply (terrain plain (cold \<lparr> elevation := gappy_api \<rparr>) query_grid2) =
     ok_response
       \<lparr> name = DisplayName (Some ''Somewhere''), center = (Finite 10, Finite 20),
         elevations = [Elev 3, Null, Undefined, Elev 7],
         minElev = Finite 3, maxElev = Finite 7, grid = 2 \<rparr> False \<and>
   reply (terrain plain (cold \<lparr> elevation := void_api \<rparr>) query_grid2) =
     error_response (Error ''No valid elevation data for this location'') \<and>
   status (reply (terrain plain (cold \<lparr> elevation := void_api \<rparr>) query_grid2)) = 500"
proof -
  let ?L = "generate_grid plain (Finite 10) (Finite 20) (requested_size plain query_grid2)
              (requested_grid plain query_grid2)"
  let ?k = "cacheKey (Finite 10) (Finite 20) (requested_size plain query_grid2)
              (requested_grid plain query_grid2)"
  let ?nm = "DisplayName (Some ''Somewhere'')"
  have res: "validate (fst (resolve plain (cold \<lparr> elevation := api \<rparr>) query_grid2)) =
       Next (Finite 10, Finite 20, ?nm) \<and>
     requested_size plain query_grid2 = Finite 10 \<and> requested_grid plain query_grid2 = 2" for api
    by (rule query_grid2_resolved) (simp add: cold_def)
  have miss: "fst (cache_get (cold \<lparr> elevation := api \<rparr>) k) = None" for api k
    by (simp add: cache_get_def cold_def)
  have gappy: "fst (fetch_elevations (elevation (cold \<lparr> elevation := gappy_api \<rparr>)) ?L) =
                 Inr [Elev 3, Null, Undefined, Elev 7]"
    using res [of gappy_api]
    by (simp add: fetch_elevations_eq grid2_single_batch gappy_api_def)
  have void: "fst (fetch_elevations (elevation (cold \<lparr> elevation := void_api \<rparr>)) ?L) =
                Inr [Null, Null, Null, Null]"
    using res [of void_api]
    by (simp add: fetch_elevations_eq grid2_single_batch void_api_def map_const_4
          length_generate_grid)
  have ex: "\<exists>x. Elev x \<in> set [Elev 3, Null, Undefined, Elev 7]"
    by (intro exI [of _ 3]) simp
  have none: "\<not> (\<exists>x. Elev x \<in> set [Null, Null, Null, Null])"
    by simp
  have h1: "validate (fst (resolve plain (cold \<lparr> elevation := gappy_api \<rparr>) query_grid2)) =
              Next (Finite 10, Finite 20, ?nm) \<and>
            fst (cache_get (cold \<lparr> elevation := gappy_api \<rparr>) ?k) = None \<and>
            fst (fetch_elevations (elevation (cold \<lparr> elevation := gappy_api \<rparr>)) ?L) =
              Inr [Elev 3, Null, Undefined, Elev 7]"
    using res [of gappy_api] miss [of gappy_api ?k] gappy by blast
  have h2: "validate (fst (resolve plain (cold \<lparr> elevation := void_api \<rparr>) query_grid2)) =
              Next (Finite 10, Finite 20, ?nm) \<and>
            fst (cache_get (cold \<lparr> elevation := void_api \<rparr>) ?k) = None \<and>
            fst (fetch_elevations (elevation (cold \<lparr> elevation := void_api \<rparr>)) ?L) =
              Inr [Null, Null, Null, Null]"
    using res [of void_api] miss [of void_api ?k] void by blast
  note t1 = aggregator_statistics
    [of "Elev 3" "[Elev 3, Null, Undefined, Elev 7]" plain "cold \<lparr> elevation := gappy_api \<rparr>"
        query_grid2 "Finite 10" "Finite 20" ?nm,
     THEN conjunct2, THEN conjunct2, THEN mp, OF h1, unfolded if_P [OF ex] gappy_numbers]
  note t2 = aggregator_statistics
    [of "Null" "[Null, Null, Null, Null]" plain "cold \<lparr> elevation := void_api \<rparr>"
        query_grid2 "Finite 10" "Finite 20" ?nm,
     THEN conjunct2, THEN conjunct2, THEN mp, OF h2, unfolded if_not_P [OF none]]
  from t1 res [of gappy_api] have first:
    "reply (terrain plain (cold \<lparr> elevation := gappy_api \<rparr>) query_grid2) =
       ok_response
         \<lparr> name = ?nm, center = (Finite 10, Finite 20),
           elevations = [Elev 3, Null, Undefined, Elev 7],
           minElev = Finite 3, maxElev = Finite 7, grid = 2 \<rparr> False"
    by simp
  from first t2 show ?thesis by simp
qed

subsection \<open>Coordinate resolver\<close>

text \<open>
  C9. For every request that supplies a non-empty text query, the query takes precedence:
  the coordinates are resolved by geocoding the query, and the explicit \<open>lat\<close> and
  \<open>lon\<close> parameters are ignored, whatever they are: the outcome of the request is the
  same for every value of them, and the center and name of a computed result are those of
  the geocoder's first candidate.
\<close>

theorem query_takes_precedence:
  "param_q req = Some q \<Longrightarrow> q \<noteq> [] \<Longrightarrow>
     terrain js e (req \<lparr> param_lat := a, param_lon := b \<rparr>) = terrain js e req \<and>
     resolve js e req = (geocoded js (geocode e q), [GeoCall q (geocode e q)]) \<and>
     (\<forall>c cs r.
        geocode e q = Json (GeoArray (c # cs)) \<and> reply (terrain js e req) = ok_response r False \<longrightarrow>
          center r = (parseFloat js (geo_lat c), parseFloat js (geo_lon c)) \<and>
          name r = DisplayName (display_name c))"
proof (intro conjI allI impI)
  assume q: "param_q req = Some q" "q \<noteq> []"
  then have "resolve js e (req \<lparr> param_lat := a, param_lon := b \<rparr>) = resolve js e req"
    by (simp add: resolve_def)
  then show "terrain js e (req \<lparr> param_lat := a, param_lon := b \<rparr>) = terrain js e req"
    by (simp add: terrain_unfold requested_size_def requested_grid_def split: step.splits)
  from q show "resolve js e req = (geocoded js (geocode e q), [GeoCall q (geocode e q)])"
    by (rule resolve_query)
next
  fix c cs r
  assume q: "param_q req = Some q" "q \<noteq> []"
    and h: "geocode e q = Json (GeoArray (c # cs)) \<and> reply (terrain js e req) = ok_response r False"
  then obtain cLat cLon nm where
    v: "validate (fst (resolve js e req)) = Next (cLat, cLon, nm)" and
    r: "center r = (cLat, cLon)" "name r = nm"
    by (elim conjE computed_reply) simp
  from v have "fst (resolve js e req) = Next (cLat, cLon, nm)"
    by (rule validate_Next)
  with q h have "cLat = parseFloat js (geo_lat c)" "cLon = parseFloat js (geo_lon c)"
    "nm = DisplayName (display_name c)"
    by (simp_all add: resolve_query)
  with r show "center r = (parseFloat js (geo_lat c), parseFloat js (geo_lon c))"
    and "name r = DisplayName (display_name c)"
    by simp_all
qed

text \<open>The theorem on \<open>?q=x&lat=45&lon=90&grid=2\<close>: the center is the geocoded (10, 20).\<close>

theorem query_takes_precedence_witness:
  "reply (terrain plain cold (query_grid2 \<lparr> param_lat := Some ''45'', param_lon := Some ''90'' \<rparr>)) =
     ok_response somewhere False \<and>
   center somewhere = (Finite 10, Finite 20) \<and>
   param_lat query_grid2 = Some ''0''"
proof -
  have "param_q query_grid2 = Some ''x''" "''x'' \<noteq> []"
    by (simp_all add: query_grid2_def)
  from query_takes_precedence [OF this, where js = plain and e = cold and a = "Some ''45''" and b = "Some ''90''"]
  have "terrain plain cold (query_grid2 \<lparr> param_lat := Some ''45'', param_lon := Some ''90'' \<rparr>) =
          terrain plain cold query_grid2"
    by blast
  then show ?thesis
    by (simp add: cold_run) (simp add: somewhere_def query_grid2_def origin_grid2_def)
qed

subsection \<open>Area parameters\<close>

text \<open>
  C10. An absent parameter reads as NaN. If the size parameter reads as NaN (as a text
  without a numeric prefix does) or as 0, the size is the default 10, and otherwise it is
  the number read, whatever it is; if the grid parameter reads as NaN or as 0, the grid is
  the default 40, and otherwise it is the integer read, whatever it is: negative, large,
  or outside 20, 30 and 40. Nothing checks the two values. Coordinate resolution does not
  read them, so no value of them makes a request be answered 400 or saves it from that;
  whenever the coordinates resolve, the request goes on to the cache lookup under the key
  built from exactly these values; a hit is answered from the store, and a miss goes on
  to the elevation calls for the grid generated from exactly these values; a status 500
  then comes from a failed elevation call or from the aggregator finding no valid sample,
  and the grid of a computed result is the value read.
\<close>

theorem parameter_defaults:
  "parseFloat js None = NaN \<and> parseInt js None = None \<and>
   (parseFloat js (param_size req) = NaN \<or> parseFloat js (param_size req) = Finite 0 \<longrightarrow>
      requested_size js req = Finite 10) \<and>
   (parseFloat js (param_size req) \<noteq> NaN \<and> parseFloat js (param_size req) \<noteq> Finite 0 \<longrightarrow>
      requested_size js req = parseFloat js (param_size req)) \<and>
   (parseInt js (param_grid req) = None \<or> parseInt js (param_grid req) = Some 0 \<longrightarrow>
      requested_grid js req = 40) \<and>
   (\<forall>n. parseInt js (param_grid req) = Some n \<and> n \<noteq> 0 \<longrightarrow> requested_grid js req = n) \<and>
   resolve js e (req \<lparr> param_size := s, param_grid := g \<rparr>) = resolve js e req \<and>
   (status (reply (terrain js e (req \<lparr> param_size := s, param_grid := g \<rparr>))) = 400 \<longleftrightarrow>
      status (reply (terrain js e req)) = 400) \<and>
   (\<forall>cLat cLon nm.
      validate (fst (resolve js e req)) = Next (cLat, cLon, nm) \<longrightarrow>
        terrain js e req =
          serve js e (cLat, cLon, nm) (requested_size js req) (requested_grid js req)
            (snd (resolve js e req)) \<and>
        (\<exists>rest. trace (terrain js e req) =
           snd (resolve js e req)
             @ snd (cache_get e (cacheKey cLat cLon (requested_size js req) (requested_grid js req)))
             @ rest) \<and>
        (\<forall>r. fst (cache_get e (cacheKey cLat cLon (requested_size js req) (requested_grid js req))) =
               Some r \<longrightarrow>
             reply (terrain js e req) = ok_response r True) \<and>
        (fst (cache_get e (cacheKey cLat cLon (requested_size js req) (requested_grid js req))) = None \<longrightarrow>
           calls (trace (terrain js e req)) =
             calls (snd (fetch_elevations (elevation e)
                      (generate_grid js cLat cLon (requested_size js req) (requested_grid js req)))) \<and>
           (status (reply (terrain js e req)) = 500 \<longrightarrow>
              (\<exists>err. reply (terrain js e req) = error_response err \<and>
                 (fst (fetch_elevations (elevation e)
                         (generate_grid js cLat cLon (requested_size js req) (requested_grid js req))) =
                    Inl err \<or>
                  err = Error ''No valid elevation data for this location''))))) \<and>
   (\<forall>r. reply (terrain js e req) = ok_response r False \<longrightarrow> grid r = requested_grid js req)"
proof (intro conjI allI impI)
  show "parseFloat js None = NaN" by (simp add: parseFloat_def)
  show "parseInt js None = None" by (simp add: parseInt_def)
  show "requested_size js req = Finite 10"
    if "parseFloat js (param_size req) = NaN \<or> parseFloat js (param_size req) = Finite 0"
    using that by (auto simp: requested_size_def size_or_default_def)
  show "requested_size js req = parseFloat js (param_size req)"
    if "parseFloat js (param_size req) \<noteq> NaN \<and> parseFloat js (param_size req) \<noteq> Finite 0"
    using that by (simp add: requested_size_def size_or_default_def)
  show "requested_grid js req = 40"
    if "parseInt js (param_grid req) = None \<or> parseInt js (param_grid req) = Some 0"
    using that by (auto simp: requested_grid_def grid_or_default_def)
  show "requested_grid js req = n"
    if "parseInt js (param_grid req) = Some n \<and> n \<noteq> 0" for n
    using that by (simp add: requested_grid_def grid_or_default_def)
  show "resolve js e (req \<lparr> param_size := s, param_grid := g \<rparr>) = resolve js e req"
    by (rule resolve_ignores_area)
  show "status (reply (terrain js e (req \<lparr> param_size := s, param_grid := g \<rparr>))) = 400 \<longleftrightarrow>
      status (reply (terrain js e req)) = 400"
    by (simp only: status_400_iff resolve_ignores_area)
  show "grid r = requested_grid js req"
    if "reply (terrain js e req) = ok_response r False" for r
    using that by (elim computed_reply) simp
next
  fix cLat cLon nm
  assume v: "validate (fst (resolve js e req)) = Next (cLat, cLon, nm)"
  then show "terrain js e req =
          serve js e (cLat, cLon, nm) (requested_size js req) (requested_grid js req)
            (snd (resolve js e req))"
    by (simp add: terrain_unfold)
  from v show "\<exists>rest. trace (terrain js e req) =
           snd (resolve js e req)
             @ snd (cache_get e (cacheKey cLat cLon (requested_size js req) (requested_grid js req)))
             @ rest"
    by (rule lookup_under_key)
  show "reply (terrain js e req) = ok_response r True"
    if "fst (cache_get e (cacheKey cLat cLon (requested_size js req) (requested_grid js req))) = Some r"
    for r
    using v that by (simp add: terrain_unfold serve_hit)
  assume miss: "fst (cache_get e (cacheKey cLat cLon (requested_size js req) (requested_grid js req))) = None"
  from pipeline_on_miss(1) [OF v miss]
  show "calls (trace (terrain js e req)) =
             calls (snd (fetch_elevations (elevation e)
                      (generate_grid js cLat cLon (requested_size js req) (requested_grid js req))))" .
  assume "status (reply (terrain js e req)) = 500"
  with pipeline_on_miss(2) [OF v miss]
  show "\<exists>err. reply (terrain js e req) = error_response err \<and>
                 (fst (fetch_elevations (elevation e)
                         (generate_grid js cLat cLon (requested_size js req) (requested_grid js req))) =
                    Inl err \<or>
                  err = Error ''No valid elevation data for this location'')"
    by blast
qed

text \<open>
  The theorem on \<open>size=abc\<close>, \<open>size=0.0\<close>, \<open>size=-2.5e3\<close>, no \<open>grid\<close>,
  \<open>grid=0\<close>, \<open>grid=-5\<close> and \<open>grid=1000000\<close>; and on \<open>?q=x&lat=0&lon=0&grid=-5\<close>
  with an empty store, which reaches the pipeline with the grid -5: no coordinate is
  generated, no elevation call is made, and the aggregator fails.
\<close>

theorem parameter_defaults_witness:
  "requested_size plain (no_params \<lparr> param_size := Some ''abc'' \<rparr>) = Finite 10 \<and>
   requested_size plain (no_params \<lparr> param_size := Some ''0.0'' \<rparr>) = Finite 10 \<and>
   requested_size plain (no_params \<lparr> param_size := Some ''-2.5e3'' \<rparr>) = Finite (- 2500) \<and>
   requested_grid plain no_params = 40 \<and>
   requested_grid plain (no_params \<lparr> param_grid := Some ''0'' \<rparr>) = 40 \<and>
   requested_grid plain (no_params \<lparr> param_grid := Some ''-5'' \<rparr>) = - 5 \<and>
   requested_grid plain (no_params \<lparr> param_grid := Some ''1000000'' \<rparr>) = 1000000 \<and>
   terrain plain cold (query_grid2 \<lparr> param_grid := Some ''-5'' \<rparr>) =
     serve plain cold (Finite 10, Finite 20, DisplayName (Some ''Somewhere'')) (Finite 10) (- 5)
       [GeoCall ''x'' (one_place ''x'')] \<and>
   calls (trace (terrain plain cold (query_grid2 \<lparr> param_grid := Some ''-5'' \<rparr>))) = [] \<and>
   reply (terrain plain cold (query_grid2 \<lparr> param_grid := Some ''-5'' \<rparr>)) =
     error_response (Error ''No valid elevation data for this location'')"
proof -
  note size_default = parameter_defaults
    [THEN conjunct2, THEN conjunct2, THEN conjunct1, THEN mp]
  note size_kept = parameter_defaults
    [THEN conjunct2, THEN conjunct2, THEN conjunct2, THEN conjunct1, THEN mp]
  note grid_default = parameter_defaults
    [THEN conjunct2, THEN conjunct2, THEN conjunct2, THEN conjunct2, THEN conjunct1, THEN mp]
  note grid_kept = parameter_defaults
    [THEN conjunct2, THEN conjunct2, THEN conjunct2, THEN conjunct2, THEN conjunct2,
     THEN conjunct1, THEN spec, THEN mp]
  note pipeline = parameter_defaults
    [THEN conjunct2, THEN conjunct2, THEN conjunct2, THEN conjunct2, THEN conjunct2,
     THEN conjunct2, THEN conjunct2, THEN conjunct2, THEN conjunct1,
     THEN spec, THEN spec, THEN spec, THEN mp]
  have "parseFloat plain (param_size (no_params \<lparr> param_size := Some ''abc'' \<rparr>)) = NaN \<or>
        parseFloat plain (param_size (no_params \<lparr> param_size := Some ''abc'' \<rparr>)) = Finite 0"
    by (simp add: parse_defs)
  from size_default [OF this]
  have 1: "requested_size plain (no_params \<lparr> param_size := Some ''abc'' \<rparr>) = Finite 10" .
  have "parseFloat plain (param_size (no_params \<lparr> param_size := Some ''0.0'' \<rparr>)) = NaN \<or>
        parseFloat plain (param_size (no_params \<lparr> param_size := Some ''0.0'' \<rparr>)) = Finite 0"
    by (simp add: parse_defs)
  from size_default [OF this]
  have 2: "requested_size plain (no_params \<lparr> param_size := Some ''0.0'' \<rparr>) = Finite 10" .
  have v3: "parseFloat plain (param_size (no_params \<lparr> param_size := Some ''-2.5e3'' \<rparr>)) =
              Finite (- 2500)"
    by (simp add: parse_defs)
  then have "parseFloat plain (param_size (no_params \<lparr> param_size := Some ''-2.5e3'' \<rparr>)) \<noteq> NaN \<and>
        parseFloat plain (param_size (no_params \<lparr> param_size := Some ''-2.5e3'' \<rparr>)) \<noteq> Finite 0"
    by simp
  from size_kept [OF this] v3
  have 3: "requested_size plain (no_params \<lparr> param_size := Some ''-2.5e3'' \<rparr>) = Finite (- 2500)"
    by simp
  have "parseInt plain (param_grid no_params) = None \<or>
        parseInt plain (param_grid no_params) = Some 0"
    by (simp add: no_params_def parseInt_def)
  from grid_default [OF this]
  have 4: "requested_grid plain no_params = 40" .
  have "parseInt plain (param_grid (no_params \<lparr> param_grid := Some ''0'' \<rparr>)) = None \<or>
        parseInt plain (param_grid (no_params \<lparr> param_grid := Some ''0'' \<rparr>)) = Some 0"
    by (simp add: parse_defs)
  from grid_default [OF this]
  have 5: "requested_grid plain (no_params \<lparr> param_grid := Some ''0'' \<rparr>) = 40" .
  have "parseInt plain (param_grid (no_params \<lparr> param_grid := Some ''-5'' \<rparr>)) = Some (- 5) \<and>
        (- 5 :: int) \<noteq> 0"
    by (simp add: parse_defs)
  from grid_kept [OF this]
  have 6: "requested_grid plain (no_params \<lparr> param_grid := Some ''-5'' \<rparr>) = - 5" .
  have "parseInt plain (param_grid (no_params \<lparr> param_grid := Some ''1000000'' \<rparr>)) = Some 1000000 \<and>
        (1000000 :: int) \<noteq> 0"
    by (simp add: parse_defs)
  from grid_kept [OF this]
  have 7: "requested_grid plain (no_params \<lparr> param_grid := Some ''1000000'' \<rparr>) = 1000000" .
  let ?r = "query_grid2 \<lparr> param_grid := Some ''-5'' \<rparr>"
  let ?nm = "DisplayName (Some ''Somewhere'')"
  have v: "validate (fst (resolve plain cold ?r)) = Next (Finite 10, Finite 20, ?nm)"
    by (simp add: resolve_def query_grid2_def cold_def one_place_def parse_defs)
  have ev: "snd (resolve plain cold ?r) = [GeoCall ''x'' (one_place ''x'')]"
    by (simp add: resolve_events query_grid2_def cold_def)
  have sz: "requested_size plain ?r = Finite 10" "requested_grid plain ?r = - 5"
    by (simp_all add: query_grid2_def origin_grid2_def no_params_def parse_defs)
  have miss: "fst (cache_get cold (cacheKey (Finite 10) (Finite 20)
                (requested_size plain ?r) (requested_grid plain ?r))) = None"
    by (simp add: cache_get_def cold_def)
  have fetched: "fetch_elevations (elevation cold)
      (generate_grid plain (Finite 10) (Finite 20) (requested_size plain ?r)
         (requested_grid plain ?r)) = (Inr [], [])"
    by (simp add: sz generate_grid_eq fetch_elevations_eq)
  from pipeline [OF v] have
    through: "terrain plain cold ?r =
       serve plain cold (Finite 10, Finite 20, ?nm) (requested_size plain ?r)
         (requested_grid plain ?r) (snd (resolve plain cold ?r))"
    and after: "fst (cache_get cold (cacheKey (Finite 10) (Finite 20)
                  (requested_size plain ?r) (requested_grid plain ?r))) = None \<longrightarrow>
       calls (trace (terrain plain cold ?r)) =
         calls (snd (fetch_elevations (elevation cold)
                  (generate_grid plain (Finite 10) (Finite 20) (requested_size plain ?r)
                     (requested_grid plain ?r)))) \<and>
       (status (reply (terrain plain cold ?r)) = 500 \<longrightarrow>
          (\<exists>err. reply (terrain plain cold ?r) = error_response err \<and>
             (fst (fetch_elevations (elevation cold)
                     (generate_grid plain (Finite 10) (Finite 20) (requested_size plain ?r)
                        (requested_grid plain ?r))) = Inl err \<or>
              err = Error ''No valid elevation data for this location'')))"
    by blast+
  from through have 8: "terrain plain cold ?r =
     serve plain cold (Finite 10, Finite 20, ?nm) (Finite 10) (- 5)
       [GeoCall ''x'' (one_place ''x'')]"
    by (simp only: sz ev)
  from after miss fetched have 9: "calls (trace (terrain plain cold ?r)) = []"
    by simp
  have "fst (fetch_elevations (elevation cold)
      (generate_grid plain (Finite 10) (Finite 20) (requested_size plain ?r)
         (requested_grid plain ?r))) = Inr []"
    by (simp add: fetched)
  from computed_from_samples [OF v miss this]
  have "status (reply (terrain plain cold ?r)) = 500"
    by simp
  with after miss fetched
  have 10: "reply (terrain plain cold ?r) =
     error_response (Error ''No valid elevation data for this location'')"
    by auto
  from 1 2 3 4 5 6 7 8 9 10 show ?thesis by blast
qed

subsection \<open>Failure kinds and status codes\<close>

text \<open>
  C8. For every request the failure kind determines the status. Without a text query and
  without a complete coordinate pair the answer is 400; coordinates that do not read as
  numbers, given explicitly or by the geocoder's first candidate, give 400; a geocoder
  that returns no candidates gives 404 with the body \<open>{"error":"Location not found"}\<close>; a
  geocoding call that fails or is malformed gives 500; an elevation call that fails or is
  malformed gives 500; no valid elevation sample gives 500; and every thrown error gives
  500 with \<open>error\<close> and \<open>details\<close>. The status is always one of 200, 400, 404 and 500,
  and every answer other than 200 has the body shape \<open>{ error, details? }\<close>.
\<close>

theorem failure_statuses:
  "(\<not> truthy (param_q req) \<and> \<not> (truthy (param_lat req) \<and> truthy (param_lon req)) \<longrightarrow>
      reply (terrain js e req) =
        \<lparr> status = 400, body = ErrorBody ''Provide ?q=location or ?lat=X&lon=Y'' None \<rparr>) \<and>
   (\<not> truthy (param_q req) \<and> truthy (param_lat req) \<and> truthy (param_lon req) \<and>
    (isNaN (parseFloat js (param_lat req)) \<or> isNaN (parseFloat js (param_lon req))) \<longrightarrow>
      reply (terrain js e req) = \<lparr> status = 400, body = ErrorBody ''Invalid coordinates'' None \<rparr>) \<and>
   (param_q req = Some q \<and> q \<noteq> [] \<and> geocode e q = Json (GeoArray (c # cs)) \<and>
    (isNaN (parseFloat js (geo_lat c)) \<or> isNaN (parseFloat js (geo_lon c))) \<longrightarrow>
      reply (terrain js e req) = \<lparr> status = 400, body = ErrorBody ''Invalid coordinates'' None \<rparr>) \<and>
   (param_q req = Some q \<and> q \<noteq> [] \<and> geocode e q = Json (GeoArray []) \<longrightarrow>
      reply (terrain js e req) = \<lparr> status = 404, body = ErrorBody ''Location not found'' None \<rparr>) \<and>
   (param_q req = Some q \<and> q \<noteq> [] \<and>
    (rejected (geocode e q) \<or> non_success (geocode e q) \<or> geo_malformed (geocode e q)) \<longrightarrow>
      status (reply (terrain js e req)) = 500) \<and>
   (ElevCall b r \<in> set (trace (terrain js e req)) \<and>
    (rejected r \<or> non_success r \<or> malformed r) \<longrightarrow>
      status (reply (terrain js e req)) = 500) \<and>
   (validate (fst (resolve js e req)) = Next (cLat, cLon, nm) \<and>
    fst (cache_get e (cacheKey cLat cLon (requested_size js req) (requested_grid js req))) = None \<and>
    fst (fetch_elevations (elevation e)
           (generate_grid js cLat cLon (requested_size js req) (requested_grid js req))) = Inr samples \<and>
    filter valid samples = [] \<longrightarrow>
      status (reply (terrain js e req)) = 500) \<and>
   status (error_response err) = 500 \<and>
   (\<exists>m d. body (error_response err) = ErrorBody m (Some d)) \<and>
   status (reply (terrain js e req)) \<in> {200, 400, 404, 500} \<and>
   (status (reply (terrain js e req)) \<noteq> 200 \<longrightarrow>
      (\<exists>m d. body (reply (terrain js e req)) = ErrorBody m d))"
proof -
  have missing: "reply (terrain js e req) =
        \<lparr> status = 400, body = ErrorBody ''Provide ?q=location or ?lat=X&lon=Y'' None \<rparr>"
    if "\<not> truthy (param_q req) \<and> \<not> (truthy (param_lat req) \<and> truthy (param_lon req))"
    using that
    by (auto simp: terrain_unfold resolve_explicit explicit_coordinates_def missing_params_def)
  have invalid: "reply (terrain js e req) =
        \<lparr> status = 400, body = ErrorBody ''Invalid coordinates'' None \<rparr>"
    if "\<not> truthy (param_q req) \<and> truthy (param_lat req) \<and> truthy (param_lon req) \<and>
        (isNaN (parseFloat js (param_lat req)) \<or> isNaN (parseFloat js (param_lon req)))"
    using that
    by (auto simp: terrain_unfold resolve_explicit explicit_coordinates_def Let_def
          invalid_coordinates_def)
  have geo_invalid: "reply (terrain js e req) =
        \<lparr> status = 400, body = ErrorBody ''Invalid coordinates'' None \<rparr>"
    if "param_q req = Some q \<and> q \<noteq> [] \<and> geocode e q = Json (GeoArray (c # cs)) \<and>
        (isNaN (parseFloat js (geo_lat c)) \<or> isNaN (parseFloat js (geo_lon c)))"
    using that
    by (auto simp: terrain_unfold resolve_query invalid_coordinates_def)
  have nowhere: "reply (terrain js e req) =
        \<lparr> status = 404, body = ErrorBody ''Location not found'' None \<rparr>"
    if "param_q req = Some q \<and> q \<noteq> [] \<and> geocode e q = Json (GeoArray [])"
    using that
    by (simp add: terrain_unfold resolve_query not_found_def)
  have geo_failed: "status (reply (terrain js e req)) = 500"
    if "param_q req = Some q \<and> q \<noteq> [] \<and>
        (rejected (geocode e q) \<or> non_success (geocode e q) \<or> geo_malformed (geocode e q))"
  proof -
    from that obtain err' where "geocoded js (geocode e q) = Throw err'"
      using failed_geocoding_throws by blast
    with that show ?thesis
      by (simp add: terrain_unfold resolve_query)
  qed
  have elev_failed: "status (reply (terrain js e req)) = 500"
    if "ElevCall b r \<in> set (trace (terrain js e req)) \<and>
        (rejected r \<or> non_success r \<or> malformed r)"
  proof -
    from that obtain err' where "batch_elevations r = Inl err'"
      using failed_reply_fails by blast
    with that failed_call_ends_request [of b r js e req err'] show ?thesis
      by simp
  qed
  have empty: "status (reply (terrain js e req)) = 500"
    if "validate (fst (resolve js e req)) = Next (cLat, cLon, nm) \<and>
        fst (cache_get e (cacheKey cLat cLon (requested_size js req) (requested_grid js req))) = None \<and>
        fst (fetch_elevations (elevation e)
               (generate_grid js cLat cLon (requested_size js req) (requested_grid js req))) = Inr samples \<and>
        filter valid samples = []"
  proof -
    from that have "\<not> (\<exists>x. Elev x \<in> set samples)"
      by (auto simp: filter_empty_conv valid_iff)
    with that computed_from_samples [of js e req cLat cLon nm samples] show ?thesis
      by simp
  qed
  from missing invalid geo_invalid nowhere geo_failed elev_failed empty
    error_response_shape [of err] reply_shape [of js e req]
  show ?thesis by blast
qed

text \<open>
  The theorem on a request without parameters, on \<open>?lat=abc&lon=0\<close>, on a text query
  with a geocoder that finds nothing, with one that is down, and on 121 coordinates with an
  elevation service that refuses the second call.
\<close>

theorem failure_statuses_witness:
  "reply (terrain plain cold no_params) =
     \<lparr> status = 400, body = ErrorBody ''Provide ?q=location or ?lat=X&lon=Y'' None \<rparr> \<and>
   reply (terrain plain cold (no_params \<lparr> param_lat := Some ''abc'', param_lon := Some ''0'' \<rparr>)) =
     \<lparr> status = 400, body = ErrorBody ''Invalid coordinates'' None \<rparr> \<and>
   reply (terrain plain (cold \<lparr> geocode := no_place \<rparr>) query_grid2) =
     \<lparr> status = 404, body = ErrorBody ''Location not found'' None \<rparr> \<and>
   status (reply (terrain plain (cold \<lparr> geocode := unavailable \<rparr>) query_grid2)) = 500 \<and>
   status (reply (terrain plain limited origin_grid11)) = 500"
proof -
  note missing = failure_statuses [THEN conjunct1, THEN mp]
  note invalid = failure_statuses [THEN conjunct2, THEN conjunct1, THEN mp]
  note nowhere = failure_statuses
    [THEN conjunct2, THEN conjunct2, THEN conjunct2, THEN conjunct1, THEN mp]
  note geo_failed = failure_statuses
    [THEN conjunct2, THEN conjunct2, THEN conjunct2, THEN conjunct2, THEN conjunct1, THEN mp]
  note elev_failed = failure_statuses
    [THEN conjunct2, THEN conjunct2, THEN conjunct2, THEN conjunct2, THEN conjunct2,
     THEN conjunct1, THEN mp]
  have "\<not> truthy (param_q no_params) \<and>
        \<not> (truthy (param_lat no_params) \<and> truthy (param_lon no_params))"
    by (simp add: no_params_def truthy_def)
  from missing [OF this]
  have 1: "reply (terrain plain cold no_params) =
     \<lparr> status = 400, body = ErrorBody ''Provide ?q=location or ?lat=X&lon=Y'' None \<rparr>" .
  let ?r = "no_params \<lparr> param_lat := Some ''abc'', param_lon := Some ''0'' \<rparr>"
  have "\<not> truthy (param_q ?r) \<and> truthy (param_lat ?r) \<and> truthy (param_lon ?r) \<and>
        (isNaN (parseFloat plain (param_lat ?r)) \<or> isNaN (parseFloat plain (param_lon ?r)))"
    by (simp add: no_params_def parse_defs)
  from invalid [OF this]
  have 2: "reply (terrain plain cold ?r) =
     \<lparr> status = 400, body = ErrorBody ''Invalid coordinates'' None \<rparr>" .
  have "param_q query_grid2 = Some ''x'' \<and> ''x'' \<noteq> [] \<and>
        geocode (cold \<lparr> geocode := no_place \<rparr>) ''x'' = Json (GeoArray [])"
    by (simp add: query_grid2_def no_place_def)
  from nowhere [OF this]
  have 3: "reply (terrain plain (cold \<lparr> geocode := no_place \<rparr>) query_grid2) =
     \<lparr> status = 404, body = ErrorBody ''Location not found'' None \<rparr>" .
  have "param_q query_grid2 = Some ''x'' \<and> ''x'' \<noteq> [] \<and>
        (rejected (geocode (cold \<lparr> geocode := unavailable \<rparr>) ''x'') \<or>
         non_success (geocode (cold \<lparr> geocode := unavailable \<rparr>) ''x'') \<or>
         geo_malformed (geocode (cold \<lparr> geocode := unavailable \<rparr>) ''x''))"
    by (simp add: query_grid2_def unavailable_def)
  from geo_failed [OF this]
  have 4: "status (reply (terrain plain (cold \<lparr> geocode := unavailable \<rparr>) query_grid2)) = 500" .
  let ?b = "drop 100 (generate_grid plain (Finite 0) (Finite 0) (Finite 10) 11)"
  have "ElevCall ?b (NotOk 429 ''slow down'') \<in> set (trace (terrain plain limited origin_grid11)) \<and>
        (rejected (NotOk 429 ''slow down'' :: elev_json upstream) \<or>
         non_success (NotOk 429 ''slow down'' :: elev_json upstream) \<or>
         malformed (NotOk 429 ''slow down''))"
    by (simp add: limited_trace)
  from elev_failed [OF this]
  have 5: "status (reply (terrain plain limited origin_grid11)) = 500" .
  from 1 2 3 4 5 show ?thesis by blast
qed

end
